theory Spec2Isabelle
  imports Complex_Main "HOL-Library.Log_Nat"
begin

section \<open>Python exceptions\<close>

text \<open>
  Every exception the two scripts can raise on the paths modelled below is a value of
  this type. The payload of \<open>AssertionError\<close> is the assertion's message, the payload
  of \<open>KeyError\<close> and \<open>AttributeError\<close> the missing key or attribute.
\<close>

datatype error =
    AssertionError string
  | TypeError string
  | KeyError string
  | AttributeError string
  | IndexError
  | RuntimeError string
  | ValueError string
  | FrameworkError

section \<open>Tensors and the tensor operations of the evaluation script\<close>

text \<open>
  A dense tensor is its shape and its elements in row-major order, as a contiguous
  \<open>torch.Tensor\<close> stores them. A float32 score is the rational number it denotes;
  class indices and labels are naturals.
\<close>

record 'a tensor =
  shape :: "nat list"
  data :: "'a list"

definition wf_tensor :: "'a tensor \<Rightarrow> bool" where
  "wf_tensor t = (length (data t) = prod_list (shape t))"

text \<open>Element \<open>(i, j, k)\<close> of a tensor of three dimensions.\<close>

definition at3 :: "'a tensor \<Rightarrow> nat \<Rightarrow> nat \<Rightarrow> nat \<Rightarrow> 'a" where
  "at3 t i j k = data t ! ((i * (shape t ! 1) + j) * (shape t ! 2) + k)"

text \<open>
  A reduction along dimension \<open>d\<close>: every slice along \<open>d\<close> is handed to \<open>f\<close>. With
  \<open>keepdim\<close> the reduced dimension stays, with size one; without, it is dropped.
\<close>

definition reduce_dim :: "('a list \<Rightarrow> 'b) \<Rightarrow> nat \<Rightarrow> bool \<Rightarrow> 'a tensor \<Rightarrow> 'b tensor" where
  "reduce_dim f d keepdim t =
     (let outer = prod_list (take d (shape t));
          len = shape t ! d;
          inner = prod_list (drop (Suc d) (shape t))
      in \<lparr> shape = (if keepdim then (shape t)[d := 1]
                    else take d (shape t) @ drop (Suc d) (shape t)),
           data = concat (map (\<lambda>out. map (\<lambda>i.
                     f (map (\<lambda>k. data t ! ((out * len + k) * inner + i)) [0..<len]))
                   [0..<inner]) [0..<outer]) \<rparr>)"

text \<open>
  float32 arithmetic. Every operation returns the exact result rounded to the nearest
  float32 value, ties to the even significand: 24 significant bits, exponents from -126
  on (below that the spacing stays \<open>2^-149\<close>). Overflow is not modelled, the scores are
  probabilities. \<open>ilog2 x\<close> is the binary exponent of a positive \<open>x\<close>.
\<close>

definition pow2 :: "int \<Rightarrow> rat" where
  "pow2 e = (if 0 \<le> e then 2 ^ nat e else 1 / 2 ^ nat (- e))"

definition ilog2 :: "rat \<Rightarrow> int" where
  "ilog2 x =
     (let d = bitlen (fst (quotient_of x)) - bitlen (snd (quotient_of x))
      in if pow2 d \<le> x then d else d - 1)"

definition round_nearest_even :: "rat \<Rightarrow> int" where
  "round_nearest_even q =
     (let n = \<lfloor>q\<rfloor>; r = q - of_int n
      in if r < 1/2 then n else if 1/2 < r then n + 1 else if even n then n else n + 1)"

definition round_f32 :: "rat \<Rightarrow> rat" where
  "round_f32 x =
     (if x = 0 then 0
      else let e = max (ilog2 \<bar>x\<bar>) (- 126); u = pow2 (e - 23)
           in of_int (round_nearest_even (x / u)) * u)"

text \<open>
  \<open>torch.mean\<close> on one float32 slice: the elements are added in order, each sum
  rounded, and the total is divided by the number of elements.
\<close>

definition mean_list :: "rat list \<Rightarrow> rat" where
  "mean_list xs =
     round_f32 (fold (\<lambda>x acc. round_f32 (acc + x)) xs 0 / of_nat (length xs))"

text \<open>\<open>torch.argmax\<close> on one slice: the index of the first maximal value.\<close>

fun argmax_list :: "'a::linorder list \<Rightarrow> nat" where
  "argmax_list [] = 0"
| "argmax_list [x] = 0"
| "argmax_list (x # y # ys) =
     (let j = argmax_list (y # ys) in if (y # ys) ! j \<le> x then 0 else Suc j)"

text \<open>
  \<open>torch.mode\<close> on one slice: a value that appears most often; among several such
  values the smallest one (the slice is scanned in sorted order and a later value
  replaces the current one only when it is strictly more frequent).
\<close>

definition mode_list :: "'a::linorder list \<Rightarrow> 'a" where
  "mode_list xs =
     (let cands = sort (remdups xs)
      in fold (\<lambda>x best. if count_list xs best < count_list xs x then x else best)
           (tl cands) (hd cands))"

text \<open>
  The framework calls used by \<open>main\<close>. A dimension out of range raises
  \<open>IndexError\<close>; \<open>argmax\<close> and \<open>mode\<close> refuse a reduction over a dimension of size zero.
\<close>

definition torch_mean :: "nat \<Rightarrow> bool \<Rightarrow> rat tensor \<Rightarrow> error + rat tensor" where
  "torch_mean d keepdim t =
     (if d < length (shape t) then Inr (reduce_dim mean_list d keepdim t) else Inl IndexError)"

definition torch_argmax :: "nat \<Rightarrow> bool \<Rightarrow> 'a::linorder tensor \<Rightarrow> error + nat tensor" where
  "torch_argmax d keepdim t =
     (if d < length (shape t) \<and> shape t ! d \<noteq> 0
      then Inr (reduce_dim argmax_list d keepdim t) else Inl IndexError)"

definition torch_mode :: "nat \<Rightarrow> bool \<Rightarrow> 'a::linorder tensor \<Rightarrow> error + 'a tensor" where
  "torch_mode d keepdim t =
     (if d < length (shape t) \<and> shape t ! d \<noteq> 0
      then Inr (reduce_dim mode_list d keepdim t) else Inl IndexError)"

text \<open>\<open>torch.squeeze\<close> without a dimension removes every dimension of size one.\<close>

definition torch_squeeze :: "'a tensor \<Rightarrow> 'a tensor" where
  "torch_squeeze t = t\<lparr>shape := filter (\<lambda>n. n \<noteq> 1) (shape t)\<rparr>"

subsection \<open>Soft and hard voting (eval.py, main)\<close>

text \<open>
  \<^verbatim>\<open>averaged_scores = torch.mean(scores_per_model, dim=0, keepdim=True)\<close>
\<close>

definition averaged_scores :: "rat tensor \<Rightarrow> error + rat tensor" where
  "averaged_scores scores_per_model = torch_mean 0 True scores_per_model"

text \<open>
  \<^verbatim>\<open>softvoting_classes = torch.argmax(averaged_scores, dim=2, keepdim=True)\<close>
  \<^verbatim>\<open>softvoting_classes = torch.squeeze(softvoting_classes)\<close>
\<close>

definition softvoting_classes :: "rat tensor \<Rightarrow> error + nat tensor" where
  "softvoting_classes scores_per_model =
     (case averaged_scores scores_per_model of
        Inl e \<Rightarrow> Inl e
      | Inr avg \<Rightarrow>
          (case torch_argmax 2 True avg of
             Inl e \<Rightarrow> Inl e
           | Inr cls \<Rightarrow> Inr (torch_squeeze cls)))"

text \<open>
  \<^verbatim>\<open>argmaxed_scores = torch.argmax(scores_per_model, dim=2, keepdim=True)\<close>
  \<^verbatim>\<open>hardvoting_classes,_ = torch.mode(argmaxed_scores, dim=0, keepdim=True)\<close>
  \<^verbatim>\<open>hardvoting_classes = torch.squeeze(hardvoting_classes)\<close>
\<close>

definition argmaxed_scores :: "'a::linordered_field tensor \<Rightarrow> error + nat tensor" where
  "argmaxed_scores scores_per_model = torch_argmax 2 True scores_per_model"

definition hardvoting_classes :: "'a::linordered_field tensor \<Rightarrow> error + nat tensor" where
  "hardvoting_classes scores_per_model =
     (case argmaxed_scores scores_per_model of
        Inl e \<Rightarrow> Inl e
      | Inr am \<Rightarrow>
          (case torch_mode 0 True am of
             Inl e \<Rightarrow> Inl e
           | Inr md \<Rightarrow> Inr (torch_squeeze md)))"

subsection \<open>What the voting rules are meant to compute\<close>

text \<open>
  The per-class probability vector of model \<open>n\<close> for sample \<open>m\<close>; the element-wise
  mean of several such vectors, in exact arithmetic (\<open>elementwise_mean\<close>) and as float32
  computes it (\<open>elementwise_mean_f32\<close>); how far the float32 mean of \<open>n\<close> non-negative
  numbers can be from their exact mean \<open>\<mu>\<close>; and what it means to be the arg-max of a
  vector and the mode of a list of votes.
\<close>

definition class_probs :: "'a tensor \<Rightarrow> nat \<Rightarrow> nat \<Rightarrow> 'a list" where
  "class_probs t n m = map (at3 t n m) [0..<shape t ! 2]"

definition exact_mean :: "rat list \<Rightarrow> rat" where
  "exact_mean xs = sum_list xs / of_nat (length xs)"

definition elementwise_mean :: "rat list list \<Rightarrow> rat list" where
  "elementwise_mean vs = map (\<lambda>c. exact_mean (map (\<lambda>v. v ! c) vs)) [0..<length (hd vs)]"

definition elementwise_mean_f32 :: "rat list list \<Rightarrow> rat list" where
  "elementwise_mean_f32 vs =
     map (\<lambda>c. mean_list (map (\<lambda>v. v ! c) vs)) [0..<length (hd vs)]"


definition is_argmax :: "'a::linorder list \<Rightarrow> nat \<Rightarrow> bool" where
  "is_argmax xs i = (i < length xs \<and> list_all (\<lambda>x. x \<le> xs ! i) xs)"

definition is_mode :: "'a list \<Rightarrow> 'a \<Rightarrow> bool" where
  "is_mode xs v = (v \<in> set xs \<and> list_all (\<lambda>x. count_list xs x \<le> count_list xs v) xs)"

text \<open>
  The soft metrics are fed \<^verbatim>\<open>torch.squeeze(averaged_scores)\<close>
  (\<^verbatim>\<open>metrics[key_soft].update(torch.squeeze(averaged_scores), true_labels)\<close>), the soft
  confusion matrix is fed \<open>softvoting_classes\<close>.
\<close>

definition soft_metric_input :: "rat tensor \<Rightarrow> error + rat tensor" where
  "soft_metric_input scores_per_model =
     (case averaged_scores scores_per_model of
        Inl e \<Rightarrow> Inl e
      | Inr avg \<Rightarrow> Inr (torch_squeeze avg))"

text \<open>
  What a multiclass metric of the metrics library does with float predictions on
  \<open>update\<close>. With one dimension more than the target they are probabilities of shape
  (samples, classes, ...): the class dimension must have \<open>num_classes\<close> entries, the
  other dimensions must be the target's, and the decision scored is
  \<^verbatim>\<open>preds.argmax(dim=1)\<close>. With as many dimensions as the target the shapes must be
  equal, and the predictions are read as labels; no arg-max is taken. Every other shape
  is refused with \<open>ValueError\<close>.
\<close>

datatype scored = Argmax_classes "nat tensor" | Preds_as_labels "rat tensor"

definition multiclass_format :: "nat \<Rightarrow> rat tensor \<Rightarrow> nat tensor \<Rightarrow> error + scored" where
  "multiclass_format n preds target =
     (if length (shape preds) = length (shape target) + 1
      then (if shape preds ! 1 \<noteq> n
            then Inl (ValueError ''preds.shape[1] should be equal to number of classes'')
            else if hd (shape preds) # drop 2 (shape preds) \<noteq> shape target
            then Inl (ValueError ''preds should be (N, C, ...) and target (N, ...)'')
            else (case torch_argmax 1 False preds of
                    Inl e \<Rightarrow> Inl e
                  | Inr cls \<Rightarrow> Inr (Argmax_classes cls)))
      else if length (shape preds) = length (shape target)
      then (if shape preds \<noteq> shape target
            then Inl (ValueError ''preds and target should have the same shape'')
            else Inr (Preds_as_labels preds))
      else Inl (ValueError ''preds and target should be (N, ...), or preds (N, C, ...)''))"

text \<open>The decision the soft F1, recall, accuracy and precision metrics score.\<close>

definition soft_metric_decision :: "nat \<Rightarrow> rat tensor \<Rightarrow> nat tensor \<Rightarrow> error + scored" where
  "soft_metric_decision n scores_per_model true_labels =
     (case soft_metric_input scores_per_model of
        Inl e \<Rightarrow> Inl e
      | Inr preds \<Rightarrow> multiclass_format n preds true_labels)"

text \<open>
  Example inputs, all float32 values. Three models, two samples, two classes (the
  models disagree on the first sample). One model, one sample, two classes, with its
  label. Three models whose exact mean favours class 1 for the first sample by
  \<open>2^-24 / 3\<close>, while both float32 means are \<open>1/2\<close>.
\<close>

definition scores_three_models :: "rat tensor" where
  "scores_three_models = \<lparr> shape = [3, 2, 2],
      data = [7/8, 1/8,  1/4, 3/4,
              3/8, 5/8,  1/4, 3/4,
              3/8, 5/8,  1/2, 1/2] \<rparr>"

definition labels_two_samples :: "nat tensor" where
  "labels_two_samples = \<lparr> shape = [2], data = [0, 1] \<rparr>"

definition scores_single_sample :: "rat tensor" where
  "scores_single_sample = \<lparr> shape = [1, 1, 2], data = [1/4, 3/4] \<rparr>"

definition labels_single_sample :: "nat tensor" where
  "labels_single_sample = \<lparr> shape = [1], data = [1] \<rparr>"

definition scores_near_tie :: "rat tensor" where
  "scores_near_tie = \<lparr> shape = [3, 2, 2],
      data = [1/2 - 1/2^24, 1/2 + 1/2^24,  1/4, 3/4,
              1/2, 1/2,                    1/4, 3/4,
              1/2, 1/2,                    1/4, 3/4] \<rparr>"

section \<open>Python values and truthiness\<close>

text \<open>
  \<open>if x:\<close> on an optional string (argparse stores \<open>None\<close> for an absent option) and
  on an optional number: \<open>None\<close>, the empty string and zero are falsy.
\<close>

definition truthy_str :: "string option \<Rightarrow> bool" where
  "truthy_str x = (case x of None \<Rightarrow> False | Some s \<Rightarrow> s \<noteq> [])"

definition truthy_num :: "'a::zero option \<Rightarrow> bool" where
  "truthy_num x = (case x of None \<Rightarrow> False | Some n \<Rightarrow> n \<noteq> 0)"

text \<open>\<^verbatim>\<open>'K' in os.environ and os.environ['K']\<close>\<close>

definition env_set :: "(string \<rightharpoonup> string) \<Rightarrow> string \<Rightarrow> bool" where
  "env_set environ k = truthy_str (environ k)"

text \<open>
  The values a loss or optimizer keyword argument, and \<open>args.loss_weights_tensor\<close>, can
  hold: a number, a string (the hidden option \<open>--loss-weights-tensor\<close> stores one), or a
  one-dimensional tensor.
\<close>

datatype pyval = PyNum rat | PyStr string | PyTensor "rat list"

text \<open>
  \<open>bool(x)\<close>: a tensor has a truth value only when it holds exactly one element.
\<close>

fun py_bool :: "pyval option \<Rightarrow> error + bool" where
  "py_bool None = Inr False"
| "py_bool (Some (PyNum r)) = Inr (r \<noteq> 0)"
| "py_bool (Some (PyStr s)) = Inr (s \<noteq> [])"
| "py_bool (Some (PyTensor [x])) = Inr (x \<noteq> 0)"
| "py_bool (Some (PyTensor xs)) =
     Inl (RuntimeError ''Boolean value of Tensor is ambiguous'')"

text \<open>\<open>any(x)\<close>: iterates over \<open>x\<close>; \<open>None\<close> and numbers are not iterable.\<close>

fun py_any :: "pyval option \<Rightarrow> error + bool" where
  "py_any None = Inl (TypeError ''NoneType object is not iterable'')"
| "py_any (Some (PyNum r)) = Inl (TypeError ''float object is not iterable'')"
| "py_any (Some (PyStr s)) = Inr (s \<noteq> [])"
| "py_any (Some (PyTensor xs)) = Inr (list_ex (\<lambda>x. x \<noteq> 0) xs)"

section \<open>The Aim logger set-up (train.py, setup_aimlogger)\<close>

text \<open>
  The options both scripts declare, as \<open>main\<close> receives them from
  \<open>argparse_runtime_args\<close> (which always fills in a run name). The fields
  \<open>experiment_arg\<close> and \<open>note_arg\<close> are \<open>args.experiment\<close> and \<open>args.note\<close>.
\<close>

record common_args =
  experiment_arg :: "string option"
  run :: string
  note_arg :: "string option"
  repo :: "string option"
  artifacts_location :: "string option"
  classlist :: string
  vallist :: string
  testlist :: "string option"
  checkpoints_path :: string
  num_workers :: int
  fast_dev_run :: bool

record aim_logger =
  lg_repo :: string
  lg_experiment :: "string option"
  lg_run_name :: string
  lg_artifacts_uri :: "string option"
  lg_description :: "string option"

text \<open>What \<open>setup_aimlogger\<close> returns: \<open>None\<close>, one logger, or a list of two.\<close>

datatype loggers = No_logger | One_logger aim_logger | Two_loggers aim_logger aim_logger

definition new_logger ::
  "string \<Rightarrow> 'a common_args_scheme \<Rightarrow> string option \<Rightarrow> aim_logger" where
  "new_logger rp args uri =
     \<lparr> lg_repo = rp, lg_experiment = experiment_arg args, lg_run_name = run args,
       lg_artifacts_uri = uri,
       lg_description = (if truthy_str (note_arg args) then note_arg args else None) \<rparr>"

text \<open>
  The result is the list of warnings emitted together with the returned value. The S3
  client configuration reads its two credentials with \<open>os.environ[...]\<close>, which raises
  \<open>KeyError\<close> for a missing variable. The framework constructors are taken to return.
\<close>

definition setup_aimlogger ::
  "(string \<rightharpoonup> string) \<Rightarrow> 'a common_args_scheme \<Rightarrow> error + (string list \<times> loggers)" where
  "setup_aimlogger environ args =
     (if env_set environ ''AIM_ARTIFACTS_S3_ENDPOINT''
         \<and> environ ''AIM_ARTIFACTS_S3_ACCESSKEY'' = None
      then Inl (KeyError ''AIM_ARTIFACTS_S3_ACCESSKEY'')
      else if env_set environ ''AIM_ARTIFACTS_S3_ENDPOINT''
         \<and> environ ''AIM_ARTIFACTS_S3_SECRETKEY'' = None
      then Inl (KeyError ''AIM_ARTIFACTS_S3_SECRETKEY'')
      else
        let env_logger =
              (if env_set environ ''AIM_REPO''
               then Some (new_logger (the (environ ''AIM_REPO'')) args
                      (if env_set environ ''AIM_ARTIFACTS_URI''
                       then environ ''AIM_ARTIFACTS_URI'' else None))
               else None);
            args_logger =
              (if truthy_str (repo args)
               then Some (new_logger (the (repo args)) args
                      (if truthy_str (artifacts_location args)
                       then artifacts_location args else None))
               else None)
        in (case (args_logger, env_logger) of
              (Some a, Some e) \<Rightarrow> Inr ([], Two_loggers a e)
            | (Some a, None) \<Rightarrow> Inr ([], One_logger a)
            | (None, Some e) \<Rightarrow> Inr ([], One_logger e)
            | (None, None) \<Rightarrow> Inr ([''NO AIM LOGGERS CREATED''], No_logger)))"

text \<open>
  The S3 client can be configured: no endpoint is set, or both credentials are there.
\<close>

definition s3_config_complete :: "(string \<rightharpoonup> string) \<Rightarrow> bool" where
  "s3_config_complete environ =
     (env_set environ ''AIM_ARTIFACTS_S3_ENDPOINT'' \<longrightarrow>
        environ ''AIM_ARTIFACTS_S3_ACCESSKEY'' \<noteq> None \<and>
        environ ''AIM_ARTIFACTS_S3_SECRETKEY'' \<noteq> None)"

section \<open>Calls to the framework, and running a script\<close>

text \<open>
  What the operating system answers: the environment variables and which paths are
  regular files.
\<close>

record os_world =
  environ :: "string \<rightharpoonup> string"
  isfile :: "string \<Rightarrow> bool"

datatype loss_fn = CrossEntropyLoss | FocalLoss

datatype transform =
    RandomVerticalFlip rat
  | RandomHorizontalFlip rat
  | Resize nat nat
  | ToImage
  | ToDtype string bool
  | Base_transform string

record datamodule =
  dm_train_src :: "string option"
  dm_val_src :: string
  dm_classlist :: string
  dm_base_transforms :: "transform list"
  dm_training_transforms :: "transform list"
  dm_batch_size :: int
  dm_num_workers :: int

text \<open>
  The arguments \<open>MulticlassClassifier\<close> is constructed with in train.py. Keyword
  dictionaries are association lists in insertion order.
\<close>

record lightning_module =
  model_name :: string
  num_classes :: nat
  model_weights :: "string option"
  model_freeze :: "rat option"
  hp_loss_function :: loss_fn
  loss_kwargs :: "(string \<times> pyval) list"
  hp_optimizer :: string
  optimizer_kwargs :: "(string \<times> pyval) list"

datatype callback =
    LogNormalizedLoss
  | BarPlotMetricAim string string
  | PlotConfusionMetricAim string bool
  | PlotPerclassDropdownAim
  | EarlyStopping string int
  | ModelSummaryWithGradCallback nat
  | ModelCheckpoint string
  | StochasticWeightAveraging rat int int

datatype metric_class = F1Score | Recall | Accuracy | Precision

datatype metric_preds = Probabilities "rat tensor" | Class_indices "nat tensor"

text \<open>
  A run of a script is the list of calls it makes to the framework, the tracker and the
  warnings module, in order, and how it ends. The framework's own calls are taken to
  return; what they compute is not modelled. \<open>Track key name epoch context\<close> is
  \<open>logger.experiment.track\<close> of the value computed by metric \<open>key\<close>;
  \<open>Fig_log2aim name context\<close> logs a figure.
\<close>

datatype call =
    Warn string
  | New_datamodule datamodule
  | Datamodule_setup string
  | New_classifier lightning_module
  | New_logger aim_logger
  | New_trainer "callback list" loggers
  | Scale_batch_size string
  | Save_hyperparameters
  | Log_artifact string string
  | Fit lightning_module datamodule
  | Test lightning_module datamodule
  | Load_model string
  | Validate string
  | New_metric string metric_class "string option" nat
  | New_confusion_matrix string nat
  | Metric_update string metric_preds "nat tensor"
  | Metric_compute string
  | Track string string nat "(string \<times> string) list"
  | Bar_plot string string
  | Confusion_plot string string
  | Fig_log2aim string "(string \<times> string) list"

datatype outcome = Done | Raised error

text \<open>A \<open>for\<close> loop whose body may raise: the first exception ends it.\<close>

fun run_all :: "('x \<Rightarrow> call list \<times> outcome) \<Rightarrow> 'x list \<Rightarrow> call list \<times> outcome" where
  "run_all body [] = ([], Done)"
| "run_all body (x # xs) =
     (case body x of
        (cs, Raised e) \<Rightarrow> (cs, Raised e)
      | (cs, Done) \<Rightarrow> (case run_all body xs of (cs', r) \<Rightarrow> (cs @ cs', r)))"

text \<open>
  The calls \<open>setup_aimlogger\<close> makes: the environment's logger is constructed first,
  then the one for \<open>--repo\<close>, then the warning.
\<close>

definition logger_calls :: "string list \<Rightarrow> loggers \<Rightarrow> call list" where
  "logger_calls warnings lg =
     (case lg of
        No_logger \<Rightarrow> []
      | One_logger a \<Rightarrow> [New_logger a]
      | Two_loggers a e \<Rightarrow> [New_logger e, New_logger a]) @ map Warn warnings"

definition logger_is_none_msg :: string where
  "logger_is_none_msg =
     ''Aim logger is None. Did you forget to set --repo, --env, or AIM_REPO env variable?''"

section \<open>The training script (train.py)\<close>

record train_args = common_args +
  trainlist :: string
  flip :: "string option"
  model :: string
  weights :: "string option"
  batch_size :: int
  freeze :: "rat option"
  loss_function :: loss_fn
  loss_weights :: "string option"
  loss_weights_tensor :: "pyval option"
  loss_smoothing :: rat
  loss_gamma :: rat
  optimizer :: string
  lr :: rat
  swa :: "int option"
  swa_lr :: rat
  swa_annealing :: int
  epoch_max :: int
  epoch_min :: int
  epoch_stop :: int
  autobatch :: "string option"
  autobatch_max :: "int option"

text \<open>
  What train.py takes from the rest of the repository and from the framework:
  \<open>check_model_name\<close> and \<open>get_model_base_transforms\<close> (src.multiclass.models), the
  class labels the datamodule reads, the normalised inverse class frequencies computed
  for \<open>--loss-weights normalize\<close>, the batch size the tuner finds and the best
  checkpoint's path. \<open>stdin_isfile\<close> is \<open>os.path.isfile(False)\<close>, which asks about file
  descriptor 0: \<open>args.loss_weights\<close> defaults to \<open>False\<close> (here \<open>None\<close>).
\<close>

record train_world = os_world +
  stdin_isfile :: bool
  check_model_name :: "string \<Rightarrow> error + string"
  get_model_base_transforms :: "string \<Rightarrow> transform list"
  class_names :: "string list"
  normalized_class_weights :: "rat list"
  found_batch_size :: int
  best_model_path :: string

definition parse_training_transforms :: "'a train_args_scheme \<Rightarrow> transform list" where
  "parse_training_transforms args =
     (if truthy_str (flip args)
      then (if CHR ''x'' \<in> set (the (flip args)) then [RandomVerticalFlip (1/2)] else []) @
           (if CHR ''y'' \<in> set (the (flip args)) then [RandomHorizontalFlip (1/2)] else [])
      else [])"

text \<open>
  Lines 189 to 197 of train.py:
  \<^verbatim>\<open>
  loss_kwargs = {}
  if args.loss_function == 'CrossEntropyLoss':
       loss_kwargs['label_smoothing'] = args.loss_smoothing
       if args.loss_weights_tensor:
           loss_kwargs['weights'] = args.loss_weights_tensor
  elif args.loss_function == 'FocalLoss':
      loss_kwargs['gamma'] = args.loss_gamma
      if any(args.loss_weights_tensor):
          loss_kwargs['alpha'] = args.loss_weights_tensor
  \<close>
\<close>

definition build_loss_kwargs ::
  "loss_fn \<Rightarrow> rat \<Rightarrow> rat \<Rightarrow> pyval option \<Rightarrow> error + (string \<times> pyval) list" where
  "build_loss_kwargs lf smoothing gamma wt =
     (case lf of
        CrossEntropyLoss \<Rightarrow>
          (case py_bool wt of
             Inl e \<Rightarrow> Inl e
           | Inr b \<Rightarrow> Inr ([(''label_smoothing'', PyNum smoothing)] @
                          (if b then [(''weights'', the wt)] else [])))
      | FocalLoss \<Rightarrow>
          (case py_any wt of
             Inl e \<Rightarrow> Inl e
           | Inr b \<Rightarrow> Inr ([(''gamma'', PyNum gamma)] @
                          (if b then [(''alpha'', the wt)] else []))))"

text \<open>
  \<open>setup_model_and_datamodule\<close>. \<open>'loss_weights' in args\<close> always holds, the option
  has a default. A weights file is opened as \<open>args.loss_weight\<close>, an attribute the
  namespace does not have.
\<close>

definition setup_model_and_datamodule ::
  "'w train_world_scheme \<Rightarrow> 'a train_args_scheme \<Rightarrow>
     call list \<times> (error + lightning_module \<times> datamodule)" where
  "setup_model_and_datamodule w args =
     (let training_transforms = parse_training_transforms args in
      case check_model_name w (model args) of
        Inl e \<Rightarrow> ([], Inl e)
      | Inr name \<Rightarrow>
          let dm = \<lparr> dm_train_src = Some (trainlist args), dm_val_src = vallist args,
                     dm_classlist = classlist args,
                     dm_base_transforms = get_model_base_transforms w name,
                     dm_training_transforms = training_transforms,
                     dm_batch_size = batch_size args, dm_num_workers = num_workers args \<rparr>;
              n = length (class_names w)
          in if loss_weights args = Some ''normalize''
             then (case build_loss_kwargs (loss_function args) (loss_smoothing args)
                          (loss_gamma args) (Some (PyTensor (normalized_class_weights w))) of
                     Inl e \<Rightarrow> ([New_datamodule dm, Datamodule_setup ''fit''], Inl e)
                   | Inr kw \<Rightarrow>
                       let lm = \<lparr> model_name = name, num_classes = n,
                                  model_weights = weights args, model_freeze = freeze args,
                                  hp_loss_function = loss_function args, loss_kwargs = kw,
                                  hp_optimizer = optimizer args,
                                  optimizer_kwargs = [(''lr'', PyNum (lr args))] \<rparr>
                       in ([New_datamodule dm, Datamodule_setup ''fit'', New_classifier lm],
                           Inr (lm, dm)))
             else if (case loss_weights args of None \<Rightarrow> stdin_isfile w | Some p \<Rightarrow> isfile w p)
             then ([New_datamodule dm], Inl (AttributeError ''loss_weight''))
             else (case build_loss_kwargs (loss_function args) (loss_smoothing args)
                          (loss_gamma args) (loss_weights_tensor args) of
                     Inl e \<Rightarrow> ([New_datamodule dm], Inl e)
                   | Inr kw \<Rightarrow>
                       let lm = \<lparr> model_name = name, num_classes = n,
                                  model_weights = weights args, model_freeze = freeze args,
                                  hp_loss_function = loss_function args, loss_kwargs = kw,
                                  hp_optimizer = optimizer args,
                                  optimizer_kwargs = [(''lr'', PyNum (lr args))] \<rparr>
                       in ([New_datamodule dm, New_classifier lm], Inr (lm, dm))))"

text \<open>\<open>os.path.basename\<close> and \<open>os.path.join\<close> of two components.\<close>

definition basename :: "string \<Rightarrow> string" where
  "basename p = rev (takeWhile (\<lambda>c. c \<noteq> CHR ''/'') (rev p))"

definition path_join :: "string \<Rightarrow> string \<Rightarrow> string" where
  "path_join a b =
     (if b \<noteq> [] \<and> hd b = CHR ''/'' then b
      else if a = [] \<or> last a = CHR ''/'' then a @ b
      else a @ ''/'' @ b)"

text \<open>\<open>trainer.logger\<close> is the first of the trainer's loggers.\<close>

fun first_logger :: "loggers \<Rightarrow> aim_logger option" where
  "first_logger No_logger = None"
| "first_logger (One_logger a) = Some a"
| "first_logger (Two_loggers a e) = Some a"

definition has_artifacts_uri :: "loggers \<Rightarrow> bool" where
  "has_artifacts_uri lg =
     (case first_logger lg of None \<Rightarrow> False | Some a \<Rightarrow> truthy_str (lg_artifacts_uri a))"

definition train_callbacks :: "'a train_args_scheme \<Rightarrow> string \<Rightarrow> callback list" where
  "train_callbacks args chkpt_path =
     [LogNormalizedLoss,
      BarPlotMetricAim ''f1_perclass'' ''f1_perclass'',
      PlotConfusionMetricAim ''classes'' True,
      PlotConfusionMetricAim ''f1_perclass'' True,
      PlotPerclassDropdownAim] @
     (if epoch_stop args \<noteq> 0 then [EarlyStopping ''val_loss'' (epoch_stop args)] else []) @
     (if truthy_num (freeze args) then [ModelSummaryWithGradCallback 2] else []) @
     [ModelCheckpoint chkpt_path] @
     (if truthy_num (swa args)
      then [StochasticWeightAveraging (swa_lr args) (the (swa args)) (swa_annealing args)]
      else [])"

text \<open>
  \<open>main\<close> of train.py, after the model and the loggers are there: the callbacks, the
  trainer, the batch-size tuner, the artifacts, fit, test, the best checkpoint.
  \<open>os.path.join\<close> raises \<open>TypeError\<close> when \<open>--experiment\<close> was not given.
\<close>

definition train_and_test ::
  "'w train_world_scheme \<Rightarrow> 'a train_args_scheme \<Rightarrow> loggers \<Rightarrow>
     lightning_module \<Rightarrow> datamodule \<Rightarrow> call list \<times> outcome" where
  "train_and_test w args logger lm dm =
     (case experiment_arg args of
        None \<Rightarrow> ([], Raised (TypeError ''expected str, bytes or os.PathLike object, not NoneType''))
      | Some ex \<Rightarrow>
          let chkpt_path = path_join (path_join (checkpoints_path args) ex) (run args)
          in ([New_trainer (train_callbacks args chkpt_path) logger] @
              (if truthy_str (autobatch args)
               then [Scale_batch_size (the (autobatch args)), Save_hyperparameters] else []) @
              (if has_artifacts_uri logger
               then (if isfile w (classlist args)
                     then [Log_artifact (classlist args) (basename (classlist args))] else []) @
                    (if isfile w (vallist args)
                     then [Log_artifact (trainlist args) (basename (vallist args))] else []) @
                    (if isfile w (trainlist args)
                     then [Log_artifact (trainlist args) (basename (trainlist args))] else [])
               else []) @
              [Fit lm dm] @
              (if truthy_str (testlist args) then [Test lm dm] else []) @
              (if has_artifacts_uri logger
               then [Log_artifact (best_model_path w) (basename (best_model_path w))] else []),
              Done))"

definition train_main ::
  "'w train_world_scheme \<Rightarrow> 'a train_args_scheme \<Rightarrow> call list \<times> outcome" where
  "train_main w args =
     (case setup_model_and_datamodule w args of
        (tr1, Inl e) \<Rightarrow> (tr1, Raised e)
      | (tr1, Inr (lm, dm)) \<Rightarrow>
          (case setup_aimlogger (environ w) args of
             Inl e \<Rightarrow> (tr1, Raised e)
           | Inr (warnings, logger) \<Rightarrow>
               if logger = No_logger
               then (tr1 @ logger_calls warnings logger,
                     Raised (AssertionError logger_is_none_msg))
               else (case train_and_test w args logger lm dm of
                       (tr2, r) \<Rightarrow> (tr1 @ logger_calls warnings logger @ tr2, r))))"

section \<open>The evaluation script (heterogenous_ensembles/eval.py)\<close>

record eval_args = common_args +
  models :: "string list"

text \<open>
  A checkpoint file's content and a classifier module. Hyperparameter dictionaries are
  association lists with distinct keys, in insertion order; the module built from
  keyword arguments keeps them as its \<open>hparams\<close>. \<open>module_model\<close> is the module's
  attribute \<open>model\<close>.
\<close>

record ('v, 'sd) checkpoint =
  hyper_parameters :: "(string \<times> 'v) list"
  state_dict :: 'sd

record ('v, 'm) classifier =
  hparams :: "(string \<times> 'v) list"
  module_model :: 'm

text \<open>
  What eval.py takes from the framework and from the rest of the repository:
  \<open>MulticlassClassifier.load_from_checkpoint\<close>, \<open>torch.load\<close>, the classifier's
  constructor and \<open>load_state_dict\<close>, \<open>get_model_resize\<close>, the pass of a model over the
  validation dataloader (softmax scores of shape (samples, classes) and the labels), and
  the class labels of the validation dataset. The checkpoint path is \<open>None\<close> when the
  designator is not a \<open>.ckpt\<close> file (the source leaves the path an \<open>Ellipsis\<close> there).
\<close>

record ('v, 'm, 'sd) eval_world = os_world +
  load_from_checkpoint :: "string option \<Rightarrow> error + ('v, 'm) classifier"
  torch_load :: "string option \<Rightarrow> error + ('v, 'sd) checkpoint"
  classifier_init :: "(string \<times> 'v) list \<Rightarrow> error + 'm"
  load_state_dict :: "'m \<Rightarrow> 'sd \<Rightarrow> error + 'm"
  get_model_resize :: "'v \<Rightarrow> error + nat"
  run_validation :: "'m \<Rightarrow> transform list \<Rightarrow> error + (rat tensor \<times> nat tensor)"
  val_classes :: "string list"

subsection \<open>load_model\<close>

definition endswith :: "string \<Rightarrow> string \<Rightarrow> bool" where
  "endswith s suffix =
     (length suffix \<le> length s \<and> drop (length s - length suffix) s = suffix)"

definition has_key :: "string \<Rightarrow> (string \<times> 'v) list \<Rightarrow> bool" where
  "has_key k d = (map_of d k \<noteq> None)"

text \<open>\<open>d[k] = v\<close> and \<open>d.pop(k)\<close>; \<open>pop\<close> of a missing key raises \<open>KeyError\<close>.\<close>

definition setitem :: "string \<Rightarrow> 'v \<Rightarrow> (string \<times> 'v) list \<Rightarrow> (string \<times> 'v) list" where
  "setitem k v d =
     (if has_key k d then map (\<lambda>kv. if fst kv = k then (k, v) else kv) d else d @ [(k, v)])"

definition pop :: "string \<Rightarrow> (string \<times> 'v) list \<Rightarrow> error + ('v \<times> (string \<times> 'v) list)" where
  "pop k d =
     (case map_of d k of
        None \<Rightarrow> Inl (KeyError k)
      | Some v \<Rightarrow> Inr (v, filter (\<lambda>kv. fst kv \<noteq> k) d))"

definition expected_hparams :: "string list" where
  "expected_hparams =
     [''model_name'', ''num_classes'', ''model_weights'', ''model_freeze'',
      ''loss_function'', ''loss_kwargs'', ''optimizer'', ''optimizer_kwargs'']"

text \<open>
  Lines 120 to 125 of eval.py, on \<open>checkpoint['hyper_parameters']\<close>:
  \<^verbatim>\<open>
  if 'model_name' not in checkpoint['hyper_parameters']:
      checkpoint['hyper_parameters']['model_name'] = checkpoint['hyper_parameters'].pop('model')
      checkpoint['hyper_parameters']['model_weights'] = checkpoint['hyper_parameters'].pop('weights')
      for key in list(checkpoint['hyper_parameters'].keys()):
          if key not in '...'.split():
              checkpoint['hyper_parameters'].pop(key)
  \<close>
\<close>

definition fallback_hyper_parameters ::
  "(string \<times> 'v) list \<Rightarrow> error + (string \<times> 'v) list" where
  "fallback_hyper_parameters hp =
     (if \<not> has_key ''model_name'' hp
      then (case pop ''model'' hp of
              Inl e \<Rightarrow> Inl e
            | Inr (mv, hp1) \<Rightarrow>
                (case pop ''weights'' (setitem ''model_name'' mv hp1) of
                   Inl e \<Rightarrow> Inl e
                 | Inr (wv, hp2) \<Rightarrow>
                     Inr (filter (\<lambda>kv. fst kv \<in> set expected_hparams)
                            (setitem ''model_weights'' wv hp2))))
      else Inr hp)"

text \<open>The \<open>except Exception\<close> branch of \<open>load_model\<close>.\<close>

definition load_fallback ::
  "('v, 'm, 'sd, 'w) eval_world_scheme \<Rightarrow> string option \<Rightarrow> error + ('v, 'm) classifier" where
  "load_fallback w ckpt_path =
     (case torch_load w ckpt_path of
        Inl e \<Rightarrow> Inl e
      | Inr checkpoint \<Rightarrow>
          (case fallback_hyper_parameters (hyper_parameters checkpoint) of
             Inl e \<Rightarrow> Inl e
           | Inr hp \<Rightarrow>
               (case classifier_init w hp of
                  Inl e \<Rightarrow> Inl e
                | Inr net \<Rightarrow>
                    (case load_state_dict w net (state_dict checkpoint) of
                       Inl e \<Rightarrow> Inl e
                     | Inr net' \<Rightarrow> Inr \<lparr> hparams = hp, module_model = net' \<rparr>))))"

definition base_transforms_for ::
  "('v, 'm, 'sd, 'w) eval_world_scheme \<Rightarrow> ('v, 'm) classifier \<Rightarrow> error + ('m \<times> transform list)"
  where
  "base_transforms_for w checkpoint_module =
     (case map_of (hparams checkpoint_module) ''model_name'' of
        None \<Rightarrow> Inl (KeyError ''model_name'')
      | Some name \<Rightarrow>
          (case get_model_resize w name of
             Inl e \<Rightarrow> Inl e
           | Inr resize \<Rightarrow>
               Inr (module_model checkpoint_module,
                    [Resize resize resize, ToImage, ToDtype ''float32'' True])))"

text \<open>
  \<^verbatim>\<open>if os.path.isfile(model_designator) and model_designator.endswith('.ckpt'):\<close>
\<close>

definition checkpoint_path ::
  "('v, 'm, 'sd, 'w) eval_world_scheme \<Rightarrow> string \<Rightarrow> string option" where
  "checkpoint_path w model_designator =
     (if isfile w model_designator \<and> endswith model_designator ''.ckpt''
      then Some model_designator else None)"

definition load_model ::
  "('v, 'm, 'sd, 'w) eval_world_scheme \<Rightarrow> string \<Rightarrow> error + ('m \<times> transform list)" where
  "load_model w model_designator =
     (let ckpt_path = checkpoint_path w model_designator
      in case (case load_from_checkpoint w ckpt_path of
                 Inr checkpoint_module \<Rightarrow> Inr checkpoint_module
               | Inl e \<Rightarrow> load_fallback w ckpt_path) of
           Inl e \<Rightarrow> Inl e
         | Inr checkpoint_module \<Rightarrow> base_transforms_for w checkpoint_module)"

subsection \<open>main\<close>

text \<open>
  The loop over \<open>args.models\<close>: each model is loaded and run over the validation data;
  its scores and labels are appended to \<open>scores_per_model\<close> and \<open>labels_per_model\<close>.
\<close>

fun inference_loop ::
  "('v, 'm, 'sd, 'w) eval_world_scheme \<Rightarrow> string list \<Rightarrow>
     call list \<times> (error + rat tensor list \<times> nat tensor list)" where
  "inference_loop w [] = ([], Inr ([], []))"
| "inference_loop w (d # ds) =
     (case load_model w d of
        Inl e \<Rightarrow> ([Load_model d], Inl e)
      | Inr (net, transforms) \<Rightarrow>
          (case run_validation w net transforms of
             Inl e \<Rightarrow> ([Load_model d, Datamodule_setup ''validation'', Validate d], Inl e)
           | Inr (model_preds, true_labels) \<Rightarrow>
               (case inference_loop w ds of
                  (cs, Inl e) \<Rightarrow>
                    ([Load_model d, Datamodule_setup ''validation'', Validate d] @ cs, Inl e)
                | (cs, Inr (scores, labels)) \<Rightarrow>
                    ([Load_model d, Datamodule_setup ''validation'', Validate d] @ cs,
                     Inr (model_preds # scores, true_labels # labels)))))"

text \<open>\<open>torch.stack\<close>: a new leading dimension; the tensors must have one shape.\<close>

definition torch_stack :: "'a tensor list \<Rightarrow> error + 'a tensor" where
  "torch_stack ts =
     (case ts of
        [] \<Rightarrow> Inl (RuntimeError ''stack expects a non-empty TensorList'')
      | t # _ \<Rightarrow>
          if list_all (\<lambda>u. shape u = shape t) ts
          then Inr \<lparr> shape = length ts # shape t, data = concat (map data ts) \<rparr>
          else Inl (RuntimeError ''stack expects each tensor to be equal size''))"

text \<open>
  \<^verbatim>\<open>assert torch.equal(labels_per_model[0],labels_per_model[-1]), 'labels_are_different'\<close>
  \<^verbatim>\<open>true_labels = labels_per_model[0]\<close>
\<close>

definition check_labels :: "nat tensor list \<Rightarrow> error + nat tensor" where
  "check_labels labels_per_model =
     (case labels_per_model of
        [] \<Rightarrow> Inl IndexError
      | first # _ \<Rightarrow>
          if first = last labels_per_model then Inr first
          else Inl (AssertionError ''labels_are_different''))"

text \<open>
  The body of the two nested metric loops, for one averaging mode and one statistic.
  With two loggers \<open>logger\<close> is a list, and \<open>logger.experiment\<close> raises.
\<close>

definition metric_step ::
  "loggers \<Rightarrow> rat tensor \<Rightarrow> nat tensor \<Rightarrow> nat \<Rightarrow> string option \<Rightarrow>
     string \<times> metric_class \<Rightarrow> call list \<times> outcome" where
  "metric_step logger avg true_labels n mode sm =
     (let stat = fst sm;
          key_hard = stat @ ''_'' @ (if truthy_str mode then the mode else ''perclass'') @ ''_HARD'';
          key_soft = stat @ ''_'' @ (if truthy_str mode then the mode else ''perclass'') @ ''_SOFT'';
          calls = [New_metric key_hard (snd sm) mode n,
                   New_metric key_soft (snd sm) mode n,
                   Metric_update key_soft (Probabilities (torch_squeeze avg)) true_labels,
                   Metric_compute key_soft]
      in if truthy_str mode
         then (case logger of
                 One_logger a \<Rightarrow>
                   (calls @ [Track key_soft stat 0
                               [(''subset'', ''val''), (''averaging'', the mode),
                                (''voting_ensemble'', ''soft'')]], Done)
               | _ \<Rightarrow> (calls, Raised (AttributeError ''experiment'')))
         else if stat = ''f1''
         then (calls @ [Bar_plot key_soft ''F1 Perclass (SOFT)'',
                        Fig_log2aim ''f1_perclass''
                          [(''figure_order'', ''classes''), (''subset'', ''val''),
                           (''voting_ensemble'', ''soft'')]], Done)
         else (calls, Done))"

definition metric_modes :: "string option list" where
  "metric_modes = [Some ''weighted'', Some ''micro'', Some ''macro'', None]"

definition metric_stats :: "(string \<times> metric_class) list" where
  "metric_stats = zip [''f1'', ''recall'', ''accuracy'', ''precision'']
                      [F1Score, Recall, Accuracy, Precision]"

definition confusion_calls :: "nat tensor \<Rightarrow> nat tensor \<Rightarrow> nat \<Rightarrow> call list" where
  "confusion_calls soft true_labels n =
     [New_confusion_matrix ''confusion_matrix_SOFT'' n,
      Metric_update ''confusion_matrix_SOFT'' (Class_indices soft) true_labels,
      Metric_compute ''confusion_matrix_SOFT'',
      Confusion_plot ''confusion_matrix_SOFT'' ''Normalized Ensemble Confusion Matrix (HARD)'',
      Fig_log2aim ''confusion_matrix''
        [(''figure_order'', ''classes''), (''subset'', ''val''),
         (''voting_ensemble'', ''soft''), (''normalize'', ''true'')]]"

text \<open>The part of \<open>main\<close> under \<open># METRICS\<close>.\<close>

definition metrics_section ::
  "loggers \<Rightarrow> rat tensor \<Rightarrow> nat tensor \<Rightarrow> nat tensor \<Rightarrow> nat \<Rightarrow> call list \<times> outcome" where
  "metrics_section logger avg soft true_labels n =
     (case run_all (\<lambda>mode. run_all (metric_step logger avg true_labels n mode) metric_stats)
             metric_modes of
        (cs, Raised e) \<Rightarrow> (cs, Raised e)
      | (cs, Done) \<Rightarrow> (cs @ confusion_calls soft true_labels n, Done))"

text \<open>
  The part of \<open>main\<close> from \<open>torch.stack\<close> on: the label assertion, the two voting
  rules, the metrics.
\<close>

definition vote_and_score ::
  "loggers \<Rightarrow> nat \<Rightarrow> rat tensor list \<Rightarrow> nat tensor list \<Rightarrow> call list \<times> outcome" where
  "vote_and_score logger n scores labels =
     (case torch_stack scores of
        Inl e \<Rightarrow> ([], Raised e)
      | Inr scores_per_model \<Rightarrow>
          (case check_labels labels of
             Inl e \<Rightarrow> ([], Raised e)
           | Inr true_labels \<Rightarrow>
               (case averaged_scores scores_per_model of
                  Inl e \<Rightarrow> ([], Raised e)
                | Inr avg \<Rightarrow>
                    (case softvoting_classes scores_per_model of
                       Inl e \<Rightarrow> ([], Raised e)
                     | Inr soft \<Rightarrow>
                         (case hardvoting_classes scores_per_model of
                            Inl e \<Rightarrow> ([], Raised e)
                          | Inr hard \<Rightarrow> metrics_section logger avg soft true_labels n)))))"

definition eval_main ::
  "('v, 'm, 'sd, 'w) eval_world_scheme \<Rightarrow> 'a eval_args_scheme \<Rightarrow> call list \<times> outcome" where
  "eval_main w args =
     (case setup_aimlogger (environ w) args of
        Inl e \<Rightarrow> ([], Raised e)
      | Inr (warnings, logger) \<Rightarrow>
          if logger = No_logger
          then (logger_calls warnings logger, Raised (AssertionError logger_is_none_msg))
          else
            let dm = \<lparr> dm_train_src = None, dm_val_src = vallist args,
                       dm_classlist = classlist args, dm_base_transforms = [],
                       dm_training_transforms = [], dm_batch_size = 100,
                       dm_num_workers = num_workers args \<rparr>;
                tr1 = logger_calls warnings logger @ [New_datamodule dm]
            in (case inference_loop w (models args) of
                  (cs, Inl e) \<Rightarrow> (tr1 @ cs, Raised e)
                | (cs, Inr (scores, labels)) \<Rightarrow>
                    (case vote_and_score logger (length (val_classes w)) scores labels of
                       (cs', r) \<Rightarrow> (tr1 @ cs @ cs', r))))"

section \<open>Reading a run\<close>

text \<open>
  The calls of the metrics part of a run; what was tracked or logged to the tracker;
  the keys of the metrics whose \<open>compute\<close> was called; the metrics constructed; the
  targets and the predictions the metrics were updated with.
\<close>

fun is_metric_call :: "call \<Rightarrow> bool" where
  "is_metric_call (New_metric k c a n) = True"
| "is_metric_call (New_confusion_matrix k n) = True"
| "is_metric_call (Metric_update k p t) = True"
| "is_metric_call (Metric_compute k) = True"
| "is_metric_call (Track k s e ctx) = True"
| "is_metric_call (Bar_plot k t) = True"
| "is_metric_call (Confusion_plot k t) = True"
| "is_metric_call (Fig_log2aim nm ctx) = True"
| "is_metric_call c = False"

fun logged :: "call list \<Rightarrow> call list" where
  "logged [] = []"
| "logged (Track k s e ctx # cs) = Track k s e ctx # logged cs"
| "logged (Fig_log2aim nm ctx # cs) = Fig_log2aim nm ctx # logged cs"
| "logged (c # cs) = logged cs"

fun log_context :: "call \<Rightarrow> (string \<times> string) list" where
  "log_context (Track k s e ctx) = ctx"
| "log_context (Fig_log2aim nm ctx) = ctx"
| "log_context c = []"

definition logged_for :: "string \<Rightarrow> call list \<Rightarrow> call list" where
  "logged_for voting tr =
     filter (\<lambda>c. map_of (log_context c) ''voting_ensemble'' = Some voting) (logged tr)"

fun computed_keys :: "call list \<Rightarrow> string list" where
  "computed_keys [] = []"
| "computed_keys (Metric_compute k # cs) = k # computed_keys cs"
| "computed_keys (c # cs) = computed_keys cs"

fun constructed :: "call list \<Rightarrow> (string \<times> metric_class option \<times> string option) list" where
  "constructed [] = []"
| "constructed (New_metric k c a n # cs) = (k, Some c, a) # constructed cs"
| "constructed (New_confusion_matrix k n # cs) = (k, None, None) # constructed cs"
| "constructed (c # cs) = constructed cs"

fun updates :: "call list \<Rightarrow> (string \<times> metric_preds \<times> nat tensor) list" where
  "updates [] = []"
| "updates (Metric_update k p t # cs) = (k, p, t) # updates cs"
| "updates (c # cs) = updates cs"

fun fit_and_test_calls :: "call list \<Rightarrow> call list" where
  "fit_and_test_calls [] = []"
| "fit_and_test_calls (Fit lm dm # cs) = Fit lm dm # fit_and_test_calls cs"
| "fit_and_test_calls (Test lm dm # cs) = Test lm dm # fit_and_test_calls cs"
| "fit_and_test_calls (c # cs) = fit_and_test_calls cs"

text \<open>The class and the averaging of every metric whose \<open>compute\<close> was called.\<close>

definition computed_metrics :: "call list \<Rightarrow> (metric_class option \<times> string option) list" where
  "computed_metrics tr = List.map_filter (map_of (constructed tr)) (computed_keys tr)"

section \<open>Example runs\<close>

text \<open>
  An evaluation with three old-style checkpoints (their hyperparameters still use the
  keys \<open>model\<close> and \<open>weights\<close>, so \<open>load_from_checkpoint\<close> fails on them), two
  validation samples and two classes. A network is identified with the keyword
  arguments it was constructed from. The scores are those of \<open>scores_three_models\<close>;
  the second model reports other labels than the first and the third.
\<close>

definition demo_eval_world ::
  "(string, (string \<times> string) list, unit) eval_world" where
  "demo_eval_world =
     \<lparr> environ = [''AIM_REPO'' \<mapsto> ''/data/aim''],
       isfile = (\<lambda>p. True),
       load_from_checkpoint = (\<lambda>p. Inl FrameworkError),
       torch_load = (\<lambda>p. case p of
            None \<Rightarrow> Inl FrameworkError
          | Some path \<Rightarrow>
              Inr \<lparr> hyper_parameters =
                      [(''model'', path), (''weights'', ''DEFAULT''), (''lr'', ''0.001''),
                       (''num_classes'', ''2'')],
                    state_dict = () \<rparr>),
       classifier_init = (\<lambda>hp. Inr hp),
       load_state_dict = (\<lambda>net sd. Inr net),
       get_model_resize = (\<lambda>name. Inr 224),
       run_validation = (\<lambda>net tfs.
            if map_of net ''model_name'' = Some ''a.ckpt''
            then Inr (\<lparr> shape = [2, 2], data = [7/8, 1/8, 1/4, 3/4] \<rparr>,
                      \<lparr> shape = [2], data = [0, 1] \<rparr>)
            else if map_of net ''model_name'' = Some ''b.ckpt''
            then Inr (\<lparr> shape = [2, 2], data = [3/8, 5/8, 1/4, 3/4] \<rparr>,
                      \<lparr> shape = [2], data = [1, 1] \<rparr>)
            else Inr (\<lparr> shape = [2, 2], data = [3/8, 5/8, 1/2, 1/2] \<rparr>,
                      \<lparr> shape = [2], data = [0, 1] \<rparr>)),
       val_classes = [''cat'', ''dog''] \<rparr>"

definition demo_eval_args :: eval_args where
  "demo_eval_args =
     \<lparr> experiment_arg = Some ''ensembles'', run = ''demo'', note_arg = None, repo = None,
       artifacts_location = None, classlist = ''classes.txt'', vallist = ''val.txt'',
       testlist = None, checkpoints_path = ''./experiments'', num_workers = 4,
       fast_dev_run = False,
       models = [''a.ckpt'', ''b.ckpt'', ''c.ckpt''] \<rparr>"

text \<open>
  A checkpoint in the current format that \<open>load_from_checkpoint\<close> still rejects: its
  hyperparameters have \<open>model_name\<close> and a key outside the expected set.
\<close>

definition new_style_hparams :: "(string \<times> string) list" where
  "new_style_hparams = [(''model_name'', ''resnet18''), (''lr'', ''0.001'')]"

definition new_style_world ::
  "(string, (string \<times> string) list, unit) eval_world" where
  "new_style_world =
     demo_eval_world \<lparr> torch_load :=
       (\<lambda>p. Inr \<lparr> hyper_parameters = new_style_hparams, state_dict = () \<rparr>) \<rparr>"

text \<open>
  A training run with \<open>--repo\<close>, \<open>--experiment\<close> and \<open>--testlist\<close> given and the
  defaults otherwise, in an empty environment.
\<close>

definition demo_train_world :: train_world where
  "demo_train_world =
     \<lparr> environ = Map.empty,
       isfile = (\<lambda>p. False),
       stdin_isfile = False,
       check_model_name = (\<lambda>name. Inr name),
       get_model_base_transforms = (\<lambda>name. [Base_transform name]),
       class_names = [''cat'', ''dog''],
       normalized_class_weights = [1/2, 1/2],
       found_batch_size = 64,
       best_model_path = ''./experiments/plankton/demo/last.ckpt'' \<rparr>"

definition demo_train_args :: train_args where
  "demo_train_args =
     \<lparr> experiment_arg = Some ''plankton'', run = ''demo'', note_arg = None,
       repo = Some ''/data/aim'', artifacts_location = None,
       classlist = ''classes.txt'', vallist = ''val.txt'', testlist = Some ''test.txt'',
       checkpoints_path = ''./experiments'', num_workers = 4, fast_dev_run = False,
       trainlist = ''train.txt'', flip = None, model = ''resnet18'',
       weights = Some ''DEFAULT'', batch_size = 256, freeze = None,
       loss_function = CrossEntropyLoss, loss_weights = None, loss_weights_tensor = None,
       loss_smoothing = 0, loss_gamma = 1, optimizer = ''Adam'', lr = 1/1000,
       swa = None, swa_lr = 1/50, swa_annealing = 10,
       epoch_max = 100, epoch_min = 10, epoch_stop = 10,
       autobatch = None, autobatch_max = None \<rparr>"

text \<open>The datamodule and the classifier module this run assembles.\<close>

definition demo_datamodule :: datamodule where
  "demo_datamodule =
     \<lparr> dm_train_src = Some ''train.txt'', dm_val_src = ''val.txt'',
       dm_classlist = ''classes.txt'', dm_base_transforms = [Base_transform ''resnet18''],
       dm_training_transforms = [], dm_batch_size = 256, dm_num_workers = 4 \<rparr>"

definition demo_module :: lightning_module where
  "demo_module =
     \<lparr> model_name = ''resnet18'', num_classes = 2, model_weights = Some ''DEFAULT'',
       model_freeze = None, hp_loss_function = CrossEntropyLoss,
       loss_kwargs = [(''label_smoothing'', PyNum 0)], hp_optimizer = ''Adam'',
       optimizer_kwargs = [(''lr'', PyNum (1/1000))] \<rparr>"

text \<open>The same run without \<open>--repo\<close>, and with \<open>--loss-function FocalLoss\<close>.\<close>

definition no_repo_train_args :: train_args where
  "no_repo_train_args = demo_train_args \<lparr> repo := None \<rparr>"

definition focal_train_args :: train_args where
  "focal_train_args = demo_train_args \<lparr> loss_function := FocalLoss \<rparr>"

section \<open>float32 rounding\<close>




lemma pow2_nat: "pow2 (int k) = 2 ^ k"
  by (simp add: pow2_def)














section \<open>Properties of the slice operations\<close>

lemma argmax_list_less: "xs \<noteq> [] \<Longrightarrow> argmax_list xs < length xs"
  by (induction xs rule: argmax_list.induct) (auto simp: Let_def)

lemma argmax_list_max: "j < length xs \<Longrightarrow> xs ! j \<le> xs ! argmax_list xs"
proof (induction xs arbitrary: j rule: argmax_list.induct)
  case 1
  then show ?case by simp
next
  case (2 x)
  then show ?case by simp
next
  case (3 x y ys)
  show ?case
  proof (cases j)
    case 0
    then show ?thesis by (auto simp: Let_def)
  next
    case (Suc j')
    with 3 have "(y # ys) ! j' \<le> (y # ys) ! argmax_list (y # ys)" by simp
    with Suc show ?thesis by (auto simp: Let_def)
  qed
qed

lemma argmax_list_is_argmax: "xs \<noteq> [] \<Longrightarrow> is_argmax xs (argmax_list xs)"
  unfolding is_argmax_def list_all_length
  by (simp add: argmax_list_less argmax_list_max)

lemma concat_map_singleton_upt:
  "concat (map (\<lambda>out. map (g out) [0..<Suc 0]) xs) = map (\<lambda>out. g out 0) xs"
  by (induction xs) auto

lemma reduce_dim0_keep:
  assumes "shape t = [N, M, C]"
  shows "reduce_dim f 0 True t =
     \<lparr> shape = [1, M, C],
       data = map (\<lambda>i. f (map (\<lambda>k. data t ! (k * (M * C) + i)) [0..<N])) [0..<M * C] \<rparr>"
  using assms by (simp add: reduce_dim_def Let_def)

lemma reduce_dim2_keep:
  assumes "shape t = [P, M, C]"
  shows "reduce_dim f 2 True t =
     \<lparr> shape = [P, M, 1],
       data = map (\<lambda>out. f (map (\<lambda>k. data t ! (out * C + k)) [0..<C])) [0..<P * M] \<rparr>"
  using assms by (simp add: reduce_dim_def Let_def numeral_2_eq_2 concat_map_singleton_upt)

lemma mode_fold_aux:
  fixes cnt :: "'a \<Rightarrow> nat"
  shows "fold (\<lambda>x best. if cnt best < cnt x then x else best) ys b \<in> set (b # ys) \<and>
         (\<forall>y \<in> set (b # ys). cnt y \<le> cnt (fold (\<lambda>x best. if cnt best < cnt x then x else best) ys b))"
proof (induction ys arbitrary: b)
  case Nil
  then show ?case by simp
next
  case (Cons a ys)
  show ?case using Cons.IH[of "if cnt b < cnt a then a else b"] 
    by (auto simp: le_less_trans  split: if_splits) 
qed

lemma mode_list_is_mode: 
  assumes "xs \<noteq> []" shows "is_mode xs (mode_list xs)"
proof -
  let ?c = "sort (remdups xs)"
  have ne: "?c \<noteq> []" using assms by (metis set_empty set_remdups set_sort) 
  then have eq: "hd ?c # tl ?c = ?c" by simp
  have s: "set ?c = set xs" by simp
  from mode_fold_aux[of "count_list xs" "tl ?c" "hd ?c"] 
  show ?thesis unfolding is_mode_def mode_list_def Let_def list_all_iff eq s by simp
qed


lemma index_bound: "m < M \<Longrightarrow> c < C \<Longrightarrow> m * C + c < M * (C::nat)"
proof -
  assume a: "m < M" "c < C"
  then have "m * C + c < (Suc m) * C" by simp
  also have "\<dots> \<le> M * C" using a by (intro mult_le_mono1) simp
  finally show ?thesis .
qed

lemma probs_hd:
  assumes "0 < N"
  shows "hd (map (\<lambda>n. class_probs s n m) [0..<N]) = class_probs s 0 m"
proof -
  have "[0..<N] \<noteq> []" using assms by simp
  then show ?thesis using assms by (simp add: hd_map)
qed

lemma elementwise_mean_f32_probs:
  assumes "shape s = [N, M, C]" "0 < N"
  shows "elementwise_mean_f32 (map (\<lambda>n. class_probs s n m) [0..<N]) =
         map (\<lambda>c. mean_list (map (\<lambda>n. data s ! ((n * M + m) * C + c)) [0..<N])) [0..<C]"
proof -
  have "hd (map (\<lambda>n. class_probs s n m) [0..<N]) = class_probs s 0 m"
    using assms(2) by (rule probs_hd)
  then show ?thesis
    using assms by (simp add: elementwise_mean_f32_def class_probs_def at3_def comp_def)
qed


lemma averaged_scores_eq:
  assumes "shape s = [N, M, C]"
  shows "averaged_scores s = Inr \<lparr> shape = [1, M, C],
       data = map (\<lambda>i. mean_list (map (\<lambda>k. data s ! (k * (M * C) + i)) [0..<N])) [0..<M * C] \<rparr>"
  using assms by (simp add: averaged_scores_def torch_mean_def reduce_dim0_keep)

lemma averaged_scores_nth:
  assumes "shape s = [N, M, C]" "averaged_scores s = Inr avg" "m < M" "c < C"
  shows "data avg ! (m * C + c) = mean_list (map (\<lambda>n. data s ! ((n * M + m) * C + c)) [0..<N])"
proof -
  have b: "m * C + c < M * C" using assms by (simp add: index_bound)
  have e: "(\<lambda>k. data s ! (k * (M * C) + (m * C + c))) = (\<lambda>n. data s ! ((n * M + m) * C + c))"
    by (rule ext) (simp add: algebra_simps)
  have "data avg = map (\<lambda>i. mean_list (map (\<lambda>k. data s ! (k * (M * C) + i)) [0..<N])) [0..<M * C]"
    using assms(2) unfolding averaged_scores_eq[OF assms(1)] by auto
  then have "data avg ! (m * C + c) =
      mean_list (map (\<lambda>k. data s ! (k * (M * C) + (m * C + c))) [0..<N])"
    using b by simp
  then show ?thesis unfolding e .
qed

lemma softvoting_eq:
  assumes "shape s = [N, M, C]" "0 < N" "0 < C"
  shows "softvoting_classes s = Inr \<lparr> shape = filter (\<lambda>n. n \<noteq> 1) [1, M, 1],
       data = map (\<lambda>m. argmax_list (elementwise_mean_f32 (map (\<lambda>n. class_probs s n m) [0..<N]))) [0..<M] \<rparr>"
proof -
  obtain avg where avg: "averaged_scores s = Inr avg" and sh: "shape avg = [1, M, C]"
    using averaged_scores_eq[OF assms(1)] by simp
  have "map (\<lambda>out. argmax_list (map (\<lambda>k. data avg ! (out * C + k)) [0..<C])) [0..<M] =
        map (\<lambda>m. argmax_list (elementwise_mean_f32 (map (\<lambda>n. class_probs s n m) [0..<N]))) [0..<M]"
  proof (rule map_cong[OF refl])
    fix m assume "m \<in> set [0..<M]"
    then have m: "m < M" by simp
    have "map (\<lambda>k. data avg ! (m * C + k)) [0..<C] =
          map (\<lambda>c. mean_list (map (\<lambda>n. data s ! ((n * M + m) * C + c)) [0..<N])) [0..<C]"
      by (rule map_cong[OF refl]) (simp add: averaged_scores_nth[OF assms(1) avg m])
    then show "argmax_list (map (\<lambda>k. data avg ! (m * C + k)) [0..<C]) =
          argmax_list (elementwise_mean_f32 (map (\<lambda>n. class_probs s n m) [0..<N]))"
      unfolding elementwise_mean_f32_probs[OF assms(1,2)] by (rule arg_cong)
  qed
  then show ?thesis
    using assms(3) by (simp add: softvoting_classes_def avg torch_argmax_def sh
        reduce_dim2_keep[OF sh] torch_squeeze_def)
qed


lemma class_probs_eq:
  assumes "shape s = [N, M, C]"
  shows "class_probs s n m = map (\<lambda>c. data s ! ((n * M + m) * C + c)) [0..<C]"
  using assms by (simp add: class_probs_def at3_def)

lemma argmaxed_scores_eq:
  assumes "shape s = [N, M, C]" "0 < C"
  shows "argmaxed_scores s = Inr \<lparr> shape = [N, M, 1],
       data = map (\<lambda>out. argmax_list (map (\<lambda>k. data s ! (out * C + k)) [0..<C])) [0..<N * M] \<rparr>"
  using assms by (simp add: argmaxed_scores_def torch_argmax_def reduce_dim2_keep)

lemma argmaxed_scores_nth:
  assumes "shape s = [N, M, C]" "0 < C" "argmaxed_scores s = Inr am" "n < N" "m < M"
  shows "data am ! (n * M + m) = argmax_list (class_probs s n m)"
proof -
  have b: "n * M + m < N * M" using assms by (simp add: index_bound)
  have "data am = map (\<lambda>out. argmax_list (map (\<lambda>k. data s ! (out * C + k)) [0..<C])) [0..<N * M]"
    using assms(3) unfolding argmaxed_scores_eq[OF assms(1,2)] by auto
  then have "data am ! (n * M + m) = argmax_list (map (\<lambda>k. data s ! ((n * M + m) * C + k)) [0..<C])"
    using b by simp
  then show ?thesis unfolding class_probs_eq[OF assms(1)] .
qed

lemma hardvoting_eq:
  assumes "shape s = [N, M, C]" "0 < N" "0 < C"
  shows "hardvoting_classes s = Inr \<lparr> shape = filter (\<lambda>n. n \<noteq> 1) [1, M, 1],
       data = map (\<lambda>m. mode_list (map (\<lambda>n. argmax_list (class_probs s n m)) [0..<N])) [0..<M] \<rparr>"
proof -
  obtain am where am: "argmaxed_scores s = Inr am" and sh: "shape am = [N, M, 1]"
    using argmaxed_scores_eq[OF assms(1,3)] by simp
  have "map (\<lambda>i. mode_list (map (\<lambda>k. data am ! (k * (M * 1) + i)) [0..<N])) [0..<M * 1] =
        map (\<lambda>m. mode_list (map (\<lambda>n. argmax_list (class_probs s n m)) [0..<N])) [0..<M]"
  proof -
    have "map (\<lambda>i. mode_list (map (\<lambda>k. data am ! (k * M + i)) [0..<N])) [0..<M] =
        map (\<lambda>m. mode_list (map (\<lambda>n. argmax_list (class_probs s n m)) [0..<N])) [0..<M]"
    proof (rule map_cong[OF refl])
      fix m assume "m \<in> set [0..<M]"
      then have m: "m < M" by simp
      have "map (\<lambda>k. data am ! (k * M + m)) [0..<N] =
          map (\<lambda>n. argmax_list (class_probs s n m)) [0..<N]"
        by (rule map_cong[OF refl]) (simp add: argmaxed_scores_nth[OF assms(1,3) am _ m])
      then show "mode_list (map (\<lambda>k. data am ! (k * M + m)) [0..<N]) =
          mode_list (map (\<lambda>n. argmax_list (class_probs s n m)) [0..<N])"
        by (rule arg_cong)
    qed
    then show ?thesis by simp
  qed
  then show ?thesis
    using assms(2) by (simp add: hardvoting_classes_def am torch_mode_def sh
        reduce_dim0_keep[OF sh] torch_squeeze_def)
qed

lemma reduce_dim1_drop:
  assumes "shape t = [M, C]"
  shows "reduce_dim f 1 False t =
     \<lparr> shape = [M],
       data = map (\<lambda>out. f (map (\<lambda>k. data t ! (out * C + k)) [0..<C])) [0..<M] \<rparr>"
  using assms by (simp add: reduce_dim_def Let_def concat_map_singleton_upt)

lemma soft_metric_decision_agrees:
  assumes "shape s = [N, M, C]" "0 < N" "1 < M" "1 < C" "shape labels = [M]"
  shows "\<exists>cls. softvoting_classes s = Inr cls \<and>
               soft_metric_decision C s labels = Inr (Argmax_classes cls)"
proof -
  obtain avg where avg: "averaged_scores s = Inr avg" and sh: "shape avg = [1, M, C]"
    using averaged_scores_eq[OF assms(1)] by simp
  have sq: "shape (torch_squeeze avg) = [M, C]" "data (torch_squeeze avg) = data avg"
    using assms sh by (simp_all add: torch_squeeze_def)
  have a1: "torch_argmax 1 False (torch_squeeze avg) =
        Inr \<lparr> shape = [M],
              data = map (\<lambda>out. argmax_list (map (\<lambda>k. data avg ! (out * C + k)) [0..<C])) [0..<M] \<rparr>"
    using assms(4) unfolding torch_argmax_def reduce_dim1_drop[OF sq(1)] sq by simp
  have a2: "torch_argmax 2 True avg =
        Inr \<lparr> shape = [1, M, 1],
              data = map (\<lambda>out. argmax_list (map (\<lambda>k. data avg ! (out * C + k)) [0..<C])) [0..<M] \<rparr>"
    using assms(4) unfolding torch_argmax_def reduce_dim2_keep[OF sh] sh by simp
  have f: "multiclass_format C (torch_squeeze avg) labels =
        Inr (Argmax_classes \<lparr> shape = [M],
              data = map (\<lambda>out. argmax_list (map (\<lambda>k. data avg ! (out * C + k)) [0..<C])) [0..<M] \<rparr>)"
    unfolding multiclass_format_def a1 using sq(1) assms(5) by simp
  show ?thesis
    using assms(3) f a2
    by (simp add: soft_metric_decision_def soft_metric_input_def softvoting_classes_def avg
        torch_squeeze_def)
qed


section \<open>The voting rules\<close>



text \<open>
  Rounding can hide the class with the larger exact mean: for the first sample of
  \<open>scores_near_tie\<close> the exact mean of class 1 is the larger one, both float32 means
  are \<open>1/2\<close>, and soft voting answers class 0.
\<close>

lemma softvoting_near_tie:
  "averaged_scores scores_near_tie =
     Inr \<lparr> shape = [1, 2, 2], data = [1/2, 1/2, 1/4, 3/4] \<rparr> \<and>
   softvoting_classes scores_near_tie = Inr \<lparr> shape = [2], data = [0, 1] \<rparr> \<and>
   elementwise_mean (map (\<lambda>n. class_probs scores_near_tie n 0) [0..<3]) =
     [25165823 / 50331648, 25165825 / 50331648]"
proof -
  have a: "averaged_scores scores_near_tie =
     Inr \<lparr> shape = [1, 2, 2], data = [1/2, 1/2, 1/4, 3/4] \<rparr>"
    by code_simp
  have v: "softvoting_classes scores_near_tie = Inr \<lparr> shape = [2], data = [0, 1] \<rparr>"
    unfolding softvoting_classes_def a by code_simp
  have e: "elementwise_mean (map (\<lambda>n. class_probs scores_near_tie n 0) [0..<3]) =
     [25165823 / 50331648, 25165825 / 50331648]"
    by code_simp
  from a v e show ?thesis by simp
qed

text \<open>
  C2. Hard voting. For a stacked score tensor of shape (N, M, C) the hard-voting
  predictions are, sample by sample, the mode of the N per-model votes, each vote being
  that model's own arg-max class for the sample.
\<close>

theorem hardvoting_mode_of_argmax:
  assumes "shape s = [N, M, C]" "wf_tensor s" "0 < N" "0 < M" "0 < C"
  shows "hardvoting_classes s =
           Inr \<lparr> shape = (if M = 1 then [] else [M]),
                 data = map (\<lambda>m. mode_list
                          (map (\<lambda>n. argmax_list (class_probs s n m)) [0..<N])) [0..<M] \<rparr>
         \<and> (\<forall>m<M. is_mode (map (\<lambda>n. argmax_list (class_probs s n m)) [0..<N])
                    (mode_list (map (\<lambda>n. argmax_list (class_probs s n m)) [0..<N])))
         \<and> (\<forall>m<M. \<forall>n<N. is_argmax (class_probs s n m) (argmax_list (class_probs s n m)))"
proof -
  have "\<And>m. map (\<lambda>n. argmax_list (class_probs s n m)) [0..<N] \<noteq> []"
    using assms(3) by simp
  moreover have "\<And>n m. class_probs s n m \<noteq> []"
    using assms(5) by (simp add: class_probs_eq[OF assms(1)])
  ultimately show ?thesis
    using hardvoting_eq[OF assms(1,3,5)]
    by (simp add: argmax_list_is_argmax mode_list_is_mode del: map_is_Nil_conv)
qed

theorem hardvoting_mode_of_argmax_witness:
  "hardvoting_classes scores_three_models = Inr \<lparr> shape = [2], data = [1, 1] \<rparr>"
proof -
  have sh: "shape scores_three_models = [3, 2, 2]" by (simp add: scores_three_models_def)
  have wf: "wf_tensor scores_three_models" by (simp add: scores_three_models_def wf_tensor_def)
  have "map (\<lambda>m. mode_list
          (map (\<lambda>n. argmax_list (class_probs scores_three_models n m)) [0..<3])) [0..<2] = [1, 1]"
    by code_simp
  then show ?thesis
    using hardvoting_mode_of_argmax[OF sh wf] by simp
qed

text \<open>
  C10. The class predictions fed to the soft confusion matrix and the decision the soft
  F1, recall, accuracy and precision metrics score are the same per-sample arg-max
  wherever \<open>torch.squeeze\<close> keeps the sample and the class dimension (lemma
  \<open>soft_metric_decision_agrees\<close>). For a single sample it removes the sample dimension
  too: the confusion matrix is fed a scalar tensor, the soft metrics are handed a
  one-dimensional tensor with one entry per class against a target of one label, and
  their \<open>update\<close> refuses the shapes with \<open>ValueError\<close>.
\<close>

theorem single_sample_breaks_soft_metrics:
  "softvoting_classes scores_single_sample = Inr \<lparr> shape = [], data = [1] \<rparr> \<and>
   soft_metric_input scores_single_sample = Inr \<lparr> shape = [2], data = [1/4, 3/4] \<rparr> \<and>
   soft_metric_decision 2 scores_single_sample labels_single_sample =
     Inl (ValueError ''preds and target should have the same shape'')"
proof -
  have a: "averaged_scores scores_single_sample =
     Inr \<lparr> shape = [1, 1, 2], data = [1/4, 3/4] \<rparr>"
    by code_simp
  have v: "softvoting_classes scores_single_sample = Inr \<lparr> shape = [], data = [1] \<rparr>"
    unfolding softvoting_classes_def a by code_simp
  have i: "soft_metric_input scores_single_sample = Inr \<lparr> shape = [2], data = [1/4, 3/4] \<rparr>"
    unfolding soft_metric_input_def a by code_simp
  have d: "soft_metric_decision 2 scores_single_sample labels_single_sample =
     Inl (ValueError ''preds and target should have the same shape'')"
    unfolding soft_metric_decision_def i by code_simp
  from v i d show ?thesis by simp
qed

section \<open>Runs of the evaluation script\<close>

lemma logged_append: "logged (xs @ ys) = logged xs @ logged ys"
  by (induction xs rule: logged.induct) auto

lemma computed_keys_append: "computed_keys (xs @ ys) = computed_keys xs @ computed_keys ys"
  by (induction xs rule: computed_keys.induct) auto

lemma constructed_append: "constructed (xs @ ys) = constructed xs @ constructed ys"
  by (induction xs rule: constructed.induct) auto

lemma updates_append: "updates (xs @ ys) = updates xs @ updates ys"
  by (induction xs rule: updates.induct) auto

lemma no_metric_call_logged: "list_all (\<lambda>c. \<not> is_metric_call c) cs \<Longrightarrow> logged cs = []"
  by (induction cs rule: logged.induct) auto

lemma no_metric_call_computed:
  "list_all (\<lambda>c. \<not> is_metric_call c) cs \<Longrightarrow> computed_keys cs = []"
  by (induction cs rule: computed_keys.induct) auto

lemma no_metric_call_constructed:
  "list_all (\<lambda>c. \<not> is_metric_call c) cs \<Longrightarrow> constructed cs = []"
  by (induction cs rule: constructed.induct) auto

lemma no_metric_call_updates: "list_all (\<lambda>c. \<not> is_metric_call c) cs \<Longrightarrow> updates cs = []"
  by (induction cs rule: updates.induct) auto

lemma inference_loop_calls:
  "inference_loop w ds = (cs, r) \<Longrightarrow> list_all (\<lambda>c. \<not> is_metric_call c) cs"
proof (induction ds arbitrary: cs r)
  case Nil
  then show ?case by simp
next
  case (Cons d ds)
  obtain cs' r' where rec: "inference_loop w ds = (cs', r')" by (cases "inference_loop w ds")
  from Cons.IH[OF rec] have "list_all (\<lambda>c. \<not> is_metric_call c) cs'" .
  with Cons.prems rec show ?case
    by (auto split: sum.splits prod.splits)
qed

lemma logger_calls_no_metric: "list_all (\<lambda>c. \<not> is_metric_call c) (logger_calls ws lg)"
  by (cases lg) (auto simp: logger_calls_def list_all_iff)

lemma metrics_section_not_one:
  "(\<And>a. logger \<noteq> One_logger a) \<Longrightarrow> snd (metrics_section logger avg soft lbl n) \<noteq> Done"
  by (cases logger)
     (auto simp: metrics_section_def metric_modes_def metric_stats_def metric_step_def
        truthy_str_def Let_def)

lemma metrics_section_done:
  "snd (metrics_section (One_logger a) avg soft lbl n) = Done"
  by (simp add: metrics_section_def metric_modes_def metric_stats_def metric_step_def
        truthy_str_def Let_def)


lemma metrics_section_logged:
  "logged (fst (metrics_section (One_logger a) avg soft lbl n)) =
     [Track ''f1_weighted_SOFT'' ''f1'' 0
        [(''subset'', ''val''), (''averaging'', ''weighted''), (''voting_ensemble'', ''soft'')],
      Track ''recall_weighted_SOFT'' ''recall'' 0
        [(''subset'', ''val''), (''averaging'', ''weighted''), (''voting_ensemble'', ''soft'')],
      Track ''accuracy_weighted_SOFT'' ''accuracy'' 0
        [(''subset'', ''val''), (''averaging'', ''weighted''), (''voting_ensemble'', ''soft'')],
      Track ''precision_weighted_SOFT'' ''precision'' 0
        [(''subset'', ''val''), (''averaging'', ''weighted''), (''voting_ensemble'', ''soft'')],
      Track ''f1_micro_SOFT'' ''f1'' 0
        [(''subset'', ''val''), (''averaging'', ''micro''), (''voting_ensemble'', ''soft'')],
      Track ''recall_micro_SOFT'' ''recall'' 0
        [(''subset'', ''val''), (''averaging'', ''micro''), (''voting_ensemble'', ''soft'')],
      Track ''accuracy_micro_SOFT'' ''accuracy'' 0
        [(''subset'', ''val''), (''averaging'', ''micro''), (''voting_ensemble'', ''soft'')],
      Track ''precision_micro_SOFT'' ''precision'' 0
        [(''subset'', ''val''), (''averaging'', ''micro''), (''voting_ensemble'', ''soft'')],
      Track ''f1_macro_SOFT'' ''f1'' 0
        [(''subset'', ''val''), (''averaging'', ''macro''), (''voting_ensemble'', ''soft'')],
      Track ''recall_macro_SOFT'' ''recall'' 0
        [(''subset'', ''val''), (''averaging'', ''macro''), (''voting_ensemble'', ''soft'')],
      Track ''accuracy_macro_SOFT'' ''accuracy'' 0
        [(''subset'', ''val''), (''averaging'', ''macro''), (''voting_ensemble'', ''soft'')],
      Track ''precision_macro_SOFT'' ''precision'' 0
        [(''subset'', ''val''), (''averaging'', ''macro''), (''voting_ensemble'', ''soft'')],
      Fig_log2aim ''f1_perclass''
        [(''figure_order'', ''classes''), (''subset'', ''val''), (''voting_ensemble'', ''soft'')],
      Fig_log2aim ''confusion_matrix''
        [(''figure_order'', ''classes''), (''subset'', ''val''),
         (''voting_ensemble'', ''soft''), (''normalize'', ''true'')]]"
  by (simp add: metrics_section_def metric_modes_def metric_stats_def metric_step_def
        truthy_str_def Let_def confusion_calls_def)

lemma metrics_section_computed:
  "computed_keys (fst (metrics_section (One_logger a) avg soft lbl n)) =
     [''f1_weighted_SOFT'', ''recall_weighted_SOFT'', ''accuracy_weighted_SOFT'',
      ''precision_weighted_SOFT'',
      ''f1_micro_SOFT'', ''recall_micro_SOFT'', ''accuracy_micro_SOFT'',
      ''precision_micro_SOFT'',
      ''f1_macro_SOFT'', ''recall_macro_SOFT'', ''accuracy_macro_SOFT'',
      ''precision_macro_SOFT'',
      ''f1_perclass_SOFT'', ''recall_perclass_SOFT'', ''accuracy_perclass_SOFT'',
      ''precision_perclass_SOFT'',
      ''confusion_matrix_SOFT'']"
  by (simp add: metrics_section_def metric_modes_def metric_stats_def metric_step_def
        truthy_str_def Let_def confusion_calls_def)

lemma metrics_section_updates:
  "updates (fst (metrics_section (One_logger a) avg soft lbl n)) =
     map (\<lambda>k. (k, Probabilities (torch_squeeze avg), lbl))
       [''f1_weighted_SOFT'', ''recall_weighted_SOFT'', ''accuracy_weighted_SOFT'',
        ''precision_weighted_SOFT'',
        ''f1_micro_SOFT'', ''recall_micro_SOFT'', ''accuracy_micro_SOFT'',
        ''precision_micro_SOFT'',
        ''f1_macro_SOFT'', ''recall_macro_SOFT'', ''accuracy_macro_SOFT'',
        ''precision_macro_SOFT'',
        ''f1_perclass_SOFT'', ''recall_perclass_SOFT'', ''accuracy_perclass_SOFT'',
        ''precision_perclass_SOFT''] @
     [(''confusion_matrix_SOFT'', Class_indices soft, lbl)]"
  by (simp add: metrics_section_def metric_modes_def metric_stats_def metric_step_def
        truthy_str_def Let_def confusion_calls_def)

lemma metrics_section_constructed:
  "map_of (constructed (fst (metrics_section (One_logger a) avg soft lbl n))) =
   map_of
     [(''f1_weighted_SOFT'', Some F1Score, Some ''weighted''),
      (''recall_weighted_SOFT'', Some Recall, Some ''weighted''),
      (''accuracy_weighted_SOFT'', Some Accuracy, Some ''weighted''),
      (''precision_weighted_SOFT'', Some Precision, Some ''weighted''),
      (''f1_micro_SOFT'', Some F1Score, Some ''micro''),
      (''recall_micro_SOFT'', Some Recall, Some ''micro''),
      (''accuracy_micro_SOFT'', Some Accuracy, Some ''micro''),
      (''precision_micro_SOFT'', Some Precision, Some ''micro''),
      (''f1_macro_SOFT'', Some F1Score, Some ''macro''),
      (''recall_macro_SOFT'', Some Recall, Some ''macro''),
      (''accuracy_macro_SOFT'', Some Accuracy, Some ''macro''),
      (''precision_macro_SOFT'', Some Precision, Some ''macro''),
      (''f1_perclass_SOFT'', Some F1Score, None),
      (''recall_perclass_SOFT'', Some Recall, None),
      (''accuracy_perclass_SOFT'', Some Accuracy, None),
      (''precision_perclass_SOFT'', Some Precision, None),
      (''confusion_matrix_SOFT'', None, None),
      (''f1_weighted_HARD'', Some F1Score, Some ''weighted''),
      (''recall_weighted_HARD'', Some Recall, Some ''weighted''),
      (''accuracy_weighted_HARD'', Some Accuracy, Some ''weighted''),
      (''precision_weighted_HARD'', Some Precision, Some ''weighted''),
      (''f1_micro_HARD'', Some F1Score, Some ''micro''),
      (''recall_micro_HARD'', Some Recall, Some ''micro''),
      (''accuracy_micro_HARD'', Some Accuracy, Some ''micro''),
      (''precision_micro_HARD'', Some Precision, Some ''micro''),
      (''f1_macro_HARD'', Some F1Score, Some ''macro''),
      (''recall_macro_HARD'', Some Recall, Some ''macro''),
      (''accuracy_macro_HARD'', Some Accuracy, Some ''macro''),
      (''precision_macro_HARD'', Some Precision, Some ''macro''),
      (''f1_perclass_HARD'', Some F1Score, None),
      (''recall_perclass_HARD'', Some Recall, None),
      (''accuracy_perclass_HARD'', Some Accuracy, None),
      (''precision_perclass_HARD'', Some Precision, None)]"
  by (simp add: metrics_section_def metric_modes_def metric_stats_def metric_step_def
        truthy_str_def Let_def confusion_calls_def fun_eq_iff)

lemma eval_main_Done:
  assumes "eval_main w args = (tr, Done)"
  obtains ws a cs scores labels spm lbl avg soft hard pre where
    "setup_aimlogger (environ w) args = Inr (ws, One_logger a)"
    "inference_loop w (models args) = (cs, Inr (scores, labels))"
    "torch_stack scores = Inr spm"
    "check_labels labels = Inr lbl"
    "averaged_scores spm = Inr avg"
    "softvoting_classes spm = Inr soft"
    "hardvoting_classes spm = Inr hard"
    "list_all (\<lambda>c. \<not> is_metric_call c) pre"
    "tr = pre @ fst (metrics_section (One_logger a) avg soft lbl (length (val_classes w)))"
proof -
  obtain ws logger where s: "setup_aimlogger (environ w) args = Inr (ws, logger)"
      and ne: "logger \<noteq> No_logger"
    using assms by (auto simp: eval_main_def split: sum.splits if_splits)
  obtain cs scores labels where i: "inference_loop w (models args) = (cs, Inr (scores, labels))"
    using assms s ne by (auto simp: eval_main_def Let_def split: sum.splits prod.splits)
  let ?n = "length (val_classes w)"
  obtain cs' where v: "vote_and_score logger ?n scores labels = (cs', Done)"
      and tr: "tr = (logger_calls ws logger @ [New_datamodule
                      \<lparr> dm_train_src = None, dm_val_src = vallist args,
                        dm_classlist = classlist args, dm_base_transforms = [],
                        dm_training_transforms = [], dm_batch_size = 100,
                        dm_num_workers = num_workers args \<rparr>] @ cs) @ cs'"
    using assms s ne i by (auto simp: eval_main_def Let_def split: prod.splits)
  obtain spm lbl avg soft hard where parts:
      "torch_stack scores = Inr spm" "check_labels labels = Inr lbl"
      "averaged_scores spm = Inr avg" "softvoting_classes spm = Inr soft"
      "hardvoting_classes spm = Inr hard"
      and m: "metrics_section logger avg soft lbl ?n = (cs', Done)"
    using v by (auto simp: vote_and_score_def split: sum.splits)
  obtain a where a: "logger = One_logger a"
    using m metrics_section_not_one[of logger avg soft lbl ?n] by auto
  have pre: "list_all (\<lambda>c. \<not> is_metric_call c) (logger_calls ws logger @ [New_datamodule
                      \<lparr> dm_train_src = None, dm_val_src = vallist args,
                        dm_classlist = classlist args, dm_base_transforms = [],
                        dm_training_transforms = [], dm_batch_size = 100,
                        dm_num_workers = num_workers args \<rparr>] @ cs)"
    using inference_loop_calls[OF i] logger_calls_no_metric[of ws logger] by simp
  show ?thesis
    using that[OF s[unfolded a] i parts pre] tr m a by simp
qed

lemma vote_and_score_done:
  assumes "torch_stack scores = Inr spm" "shape spm = [N, M, C]" "0 < N" "0 < C"
    "check_labels labels = Inr lbl"
  shows "snd (vote_and_score (One_logger a) n scores labels) = Done"
proof -
  obtain avg where 1: "averaged_scores spm = Inr avg"
    using averaged_scores_eq[OF assms(2)] by simp
  obtain soft where 2: "softvoting_classes spm = Inr soft"
    using softvoting_eq[OF assms(2,3,4)] by simp
  obtain hard where 3: "hardvoting_classes spm = Inr hard"
    using hardvoting_eq[OF assms(2,3,4)] by simp
  show ?thesis
    by (simp add: vote_and_score_def assms(1,5) 1 2 3 metrics_section_done)
qed

lemma demo_eval_done: "snd (eval_main demo_eval_world demo_eval_args) = Done"
proof -
  define a where "a = \<lparr> lg_repo = ''/data/aim'', lg_experiment = Some ''ensembles'',
                          lg_run_name = ''demo'', lg_artifacts_uri = None,
                          lg_description = None \<rparr>"
  define scores :: "rat tensor list" where
    "scores = [\<lparr> shape = [2, 2], data = [7/8, 1/8, 1/4, 3/4] \<rparr>,
               \<lparr> shape = [2, 2], data = [3/8, 5/8, 1/4, 3/4] \<rparr>,
               \<lparr> shape = [2, 2], data = [3/8, 5/8, 1/2, 1/2] \<rparr>]"
  define labels :: "nat tensor list" where
    "labels = [\<lparr> shape = [2], data = [0, 1] \<rparr>, \<lparr> shape = [2], data = [1, 1] \<rparr>,
               \<lparr> shape = [2], data = [0, 1] \<rparr>]"
  have s: "setup_aimlogger (environ demo_eval_world) demo_eval_args = Inr ([], One_logger a)"
    unfolding a_def by code_simp
  have i: "snd (inference_loop demo_eval_world (models demo_eval_args)) = Inr (scores, labels)"
    unfolding scores_def labels_def by code_simp
  have st: "torch_stack scores = Inr scores_three_models"
    unfolding scores_def by code_simp
  have sh: "shape scores_three_models = [3, 2, 2]" by (simp add: scores_three_models_def)
  have cl: "check_labels labels = Inr \<lparr> shape = [2], data = [0, 1] \<rparr>"
    unfolding labels_def by code_simp
  have v: "snd (vote_and_score (One_logger a) n scores labels) = Done" for n
    by (rule vote_and_score_done[OF st sh _ _ cl]) simp_all
  obtain cs where ii: "inference_loop demo_eval_world (models demo_eval_args) =
      (cs, Inr (scores, labels))"
    using i by (cases "inference_loop demo_eval_world (models demo_eval_args)") simp
  obtain cs' where vv: "vote_and_score (One_logger a) (length (val_classes demo_eval_world))
      scores labels = (cs', Done)"
    using v[of "length (val_classes demo_eval_world)"]
    by (cases "vote_and_score (One_logger a) (length (val_classes demo_eval_world))
          scores labels") simp
  show ?thesis
    by (simp add: eval_main_def s ii vv Let_def)
qed

lemma demo_eval_run:
  "eval_main demo_eval_world demo_eval_args =
     (fst (eval_main demo_eval_world demo_eval_args), Done)"
  using demo_eval_done by (metis prod.collapse)

lemma eval_main_logged:
  assumes "eval_main w args = (tr, Done)"
  shows "logged tr =
     [Track ''f1_weighted_SOFT'' ''f1'' 0
        [(''subset'', ''val''), (''averaging'', ''weighted''), (''voting_ensemble'', ''soft'')],
      Track ''recall_weighted_SOFT'' ''recall'' 0
        [(''subset'', ''val''), (''averaging'', ''weighted''), (''voting_ensemble'', ''soft'')],
      Track ''accuracy_weighted_SOFT'' ''accuracy'' 0
        [(''subset'', ''val''), (''averaging'', ''weighted''), (''voting_ensemble'', ''soft'')],
      Track ''precision_weighted_SOFT'' ''precision'' 0
        [(''subset'', ''val''), (''averaging'', ''weighted''), (''voting_ensemble'', ''soft'')],
      Track ''f1_micro_SOFT'' ''f1'' 0
        [(''subset'', ''val''), (''averaging'', ''micro''), (''voting_ensemble'', ''soft'')],
      Track ''recall_micro_SOFT'' ''recall'' 0
        [(''subset'', ''val''), (''averaging'', ''micro''), (''voting_ensemble'', ''soft'')],
      Track ''accuracy_micro_SOFT'' ''accuracy'' 0
        [(''subset'', ''val''), (''averaging'', ''micro''), (''voting_ensemble'', ''soft'')],
      Track ''precision_micro_SOFT'' ''precision'' 0
        [(''subset'', ''val''), (''averaging'', ''micro''), (''voting_ensemble'', ''soft'')],
      Track ''f1_macro_SOFT'' ''f1'' 0
        [(''subset'', ''val''), (''averaging'', ''macro''), (''voting_ensemble'', ''soft'')],
      Track ''recall_macro_SOFT'' ''recall'' 0
        [(''subset'', ''val''), (''averaging'', ''macro''), (''voting_ensemble'', ''soft'')],
      Track ''accuracy_macro_SOFT'' ''accuracy'' 0
        [(''subset'', ''val''), (''averaging'', ''macro''), (''voting_ensemble'', ''soft'')],
      Track ''precision_macro_SOFT'' ''precision'' 0
        [(''subset'', ''val''), (''averaging'', ''macro''), (''voting_ensemble'', ''soft'')],
      Fig_log2aim ''f1_perclass''
        [(''figure_order'', ''classes''), (''subset'', ''val''), (''voting_ensemble'', ''soft'')],
      Fig_log2aim ''confusion_matrix''
        [(''figure_order'', ''classes''), (''subset'', ''val''),
         (''voting_ensemble'', ''soft''), (''normalize'', ''true'')]]"
proof -
  from assms obtain a avg soft lbl pre where
      pre: "list_all (\<lambda>c. \<not> is_metric_call c) pre" and
      tr: "tr = pre @ fst (metrics_section (One_logger a) avg soft lbl (length (val_classes w)))"
    by (rule eval_main_Done)
  show ?thesis
    unfolding tr logged_append no_metric_call_logged[OF pre] metrics_section_logged by simp
qed

lemma check_labels_Cons:
  "check_labels (first # rest) =
     (if first = last (first # rest) then Inr first
      else Inl (AssertionError ''labels_are_different''))"
  by (simp add: check_labels_def)

section \<open>What the evaluation script logs and computes\<close>

text \<open>
  C3 (as amended). For every successful run of the evaluation script, the metrics and
  plots of the soft-voting predictions are logged to the tracker: F1, recall, accuracy
  and precision are tracked for weighted, micro and macro averaging, and the per-class
  F1 bar plot and the confusion matrix are logged as figures, all with
  \<open>voting_ensemble = soft\<close>. The hard-voting predictions are computed, but nothing is
  tracked or logged for them.
\<close>

theorem only_soft_voting_is_logged:
  assumes "eval_main w args = (tr, Done)"
  shows "logged tr =
     [Track ''f1_weighted_SOFT'' ''f1'' 0
        [(''subset'', ''val''), (''averaging'', ''weighted''), (''voting_ensemble'', ''soft'')],
      Track ''recall_weighted_SOFT'' ''recall'' 0
        [(''subset'', ''val''), (''averaging'', ''weighted''), (''voting_ensemble'', ''soft'')],
      Track ''accuracy_weighted_SOFT'' ''accuracy'' 0
        [(''subset'', ''val''), (''averaging'', ''weighted''), (''voting_ensemble'', ''soft'')],
      Track ''precision_weighted_SOFT'' ''precision'' 0
        [(''subset'', ''val''), (''averaging'', ''weighted''), (''voting_ensemble'', ''soft'')],
      Track ''f1_micro_SOFT'' ''f1'' 0
        [(''subset'', ''val''), (''averaging'', ''micro''), (''voting_ensemble'', ''soft'')],
      Track ''recall_micro_SOFT'' ''recall'' 0
        [(''subset'', ''val''), (''averaging'', ''micro''), (''voting_ensemble'', ''soft'')],
      Track ''accuracy_micro_SOFT'' ''accuracy'' 0
        [(''subset'', ''val''), (''averaging'', ''micro''), (''voting_ensemble'', ''soft'')],
      Track ''precision_micro_SOFT'' ''precision'' 0
        [(''subset'', ''val''), (''averaging'', ''micro''), (''voting_ensemble'', ''soft'')],
      Track ''f1_macro_SOFT'' ''f1'' 0
        [(''subset'', ''val''), (''averaging'', ''macro''), (''voting_ensemble'', ''soft'')],
      Track ''recall_macro_SOFT'' ''recall'' 0
        [(''subset'', ''val''), (''averaging'', ''macro''), (''voting_ensemble'', ''soft'')],
      Track ''accuracy_macro_SOFT'' ''accuracy'' 0
        [(''subset'', ''val''), (''averaging'', ''macro''), (''voting_ensemble'', ''soft'')],
      Track ''precision_macro_SOFT'' ''precision'' 0
        [(''subset'', ''val''), (''averaging'', ''macro''), (''voting_ensemble'', ''soft'')],
      Fig_log2aim ''f1_perclass''
        [(''figure_order'', ''classes''), (''subset'', ''val''), (''voting_ensemble'', ''soft'')],
      Fig_log2aim ''confusion_matrix''
        [(''figure_order'', ''classes''), (''subset'', ''val''),
         (''voting_ensemble'', ''soft''), (''normalize'', ''true'')]]
    \<and> logged_for ''soft'' tr = logged tr
    \<and> logged_for ''hard'' tr = []"
  unfolding logged_for_def eval_main_logged[OF assms] by simp

theorem only_soft_voting_is_logged_witness:
  "snd (eval_main demo_eval_world demo_eval_args) = Done \<and>
   length (logged (fst (eval_main demo_eval_world demo_eval_args))) = 14 \<and>
   logged_for ''soft'' (fst (eval_main demo_eval_world demo_eval_args)) =
     logged (fst (eval_main demo_eval_world demo_eval_args))"
  using demo_eval_done only_soft_voting_is_logged[OF demo_eval_run] by simp

text \<open>
  C3 as stated, metrics and plots logged for both strategies, fails on the example run:
  it succeeds, hard voting yields predictions, and no tracked value or logged figure
  belongs to hard voting.
\<close>

theorem hard_voting_is_not_logged:
  "snd (eval_main demo_eval_world demo_eval_args) = Done \<and>
   hardvoting_classes scores_three_models = Inr \<lparr> shape = [2], data = [1, 1] \<rparr> \<and>
   logged_for ''hard'' (fst (eval_main demo_eval_world demo_eval_args)) = []"
proof -
  have h: "hardvoting_classes scores_three_models = Inr \<lparr> shape = [2], data = [1, 1] \<rparr>"
    by code_simp
  have "logged_for ''hard'' (fst (eval_main demo_eval_world demo_eval_args)) = []"
    unfolding logged_for_def eval_main_logged[OF demo_eval_run] by simp
  with h demo_eval_done show ?thesis by simp
qed

text \<open>
  C4. For every successful run of the evaluation script, the metrics computed are F1,
  recall, accuracy and precision, each with weighted, micro and macro averaging and per
  class (\<open>average=None\<close>), and a confusion matrix; the first sixteen are updated with
  the squeezed averaged scores of the ensemble, the confusion matrix with the
  soft-voting classes.
\<close>

theorem computed_metric_set:
  assumes "eval_main w args = (tr, Done)"
  shows "computed_metrics tr =
     [(Some F1Score, Some ''weighted''), (Some Recall, Some ''weighted''),
      (Some Accuracy, Some ''weighted''), (Some Precision, Some ''weighted''),
      (Some F1Score, Some ''micro''), (Some Recall, Some ''micro''),
      (Some Accuracy, Some ''micro''), (Some Precision, Some ''micro''),
      (Some F1Score, Some ''macro''), (Some Recall, Some ''macro''),
      (Some Accuracy, Some ''macro''), (Some Precision, Some ''macro''),
      (Some F1Score, None), (Some Recall, None),
      (Some Accuracy, None), (Some Precision, None),
      (None, None)]
    \<and> (\<exists>cs scores labels spm avg soft.
          inference_loop w (models args) = (cs, Inr (scores, labels)) \<and>
          torch_stack scores = Inr spm \<and>
          averaged_scores spm = Inr avg \<and> softvoting_classes spm = Inr soft \<and>
          map (\<lambda>u. fst (snd u)) (updates tr) =
            replicate 16 (Probabilities (torch_squeeze avg)) @ [Class_indices soft] \<and>
          map fst (updates tr) = computed_keys tr)"
proof -
  from assms obtain ws a cs scores labels spm lbl avg soft hard pre where
      i: "inference_loop w (models args) = (cs, Inr (scores, labels))" and
      st: "torch_stack scores = Inr spm" and
      av: "averaged_scores spm = Inr avg" and
      so: "softvoting_classes spm = Inr soft" and
      pre: "list_all (\<lambda>c. \<not> is_metric_call c) pre" and
      tr: "tr = pre @ fst (metrics_section (One_logger a) avg soft lbl (length (val_classes w)))"
    by (rule eval_main_Done)
  let ?ms = "fst (metrics_section (One_logger a) avg soft lbl (length (val_classes w)))"
  have k: "computed_keys tr = computed_keys ?ms"
    unfolding tr computed_keys_append no_metric_call_computed[OF pre] by simp
  have c: "constructed tr = constructed ?ms"
    unfolding tr constructed_append no_metric_call_constructed[OF pre] by simp
  have u: "updates tr = updates ?ms"
    unfolding tr updates_append no_metric_call_updates[OF pre] by simp
  have 1: "computed_metrics tr =
     [(Some F1Score, Some ''weighted''), (Some Recall, Some ''weighted''),
      (Some Accuracy, Some ''weighted''), (Some Precision, Some ''weighted''),
      (Some F1Score, Some ''micro''), (Some Recall, Some ''micro''),
      (Some Accuracy, Some ''micro''), (Some Precision, Some ''micro''),
      (Some F1Score, Some ''macro''), (Some Recall, Some ''macro''),
      (Some Accuracy, Some ''macro''), (Some Precision, Some ''macro''),
      (Some F1Score, None), (Some Recall, None),
      (Some Accuracy, None), (Some Precision, None),
      (None, None)]"
    unfolding computed_metrics_def k c metrics_section_computed metrics_section_constructed
    by (simp add: List.map_filter_simps)
  have 2: "map (\<lambda>u. fst (snd u)) (updates tr) =
            replicate 16 (Probabilities (torch_squeeze avg)) @ [Class_indices soft]"
    unfolding u metrics_section_updates by (simp add: numeral_eq_Suc)
  have 3: "map fst (updates tr) = computed_keys tr"
    unfolding u k metrics_section_updates metrics_section_computed by simp
  from 1 2 3 i st av so show ?thesis by blast
qed

theorem computed_metric_set_witness:
  "snd (eval_main demo_eval_world demo_eval_args) = Done \<and>
   length (computed_metrics (fst (eval_main demo_eval_world demo_eval_args))) = 17"
  using demo_eval_done computed_metric_set[OF demo_eval_run] by simp

text \<open>
  C8. The label check compares the first collected label tensor with the last one only:
  it fails with \<open>labels_are_different\<close> when they differ and otherwise yields the
  first; the tensors in between have no influence. In a successful run every metric is
  updated against the first model's labels.
\<close>

theorem labels_first_against_last_only:
  "check_labels (first # rest) =
     (if first = last (first # rest) then Inr first
      else Inl (AssertionError ''labels_are_different''))
   \<and> check_labels (first # mids @ [lst]) = check_labels (first # mids' @ [lst])
   \<and> (eval_main w args = (tr, Done) \<longrightarrow>
        (\<exists>cs scores labels.
           inference_loop w (models args) = (cs, Inr (scores, labels)) \<and>
           labels \<noteq> [] \<and> hd labels = last labels \<and>
           updates tr \<noteq> [] \<and>
           list_all (\<lambda>u. snd (snd u) = hd labels) (updates tr)))"
proof (intro conjI impI)
  show "check_labels (first # rest) =
     (if first = last (first # rest) then Inr first
      else Inl (AssertionError ''labels_are_different''))"
    by (rule check_labels_Cons)
  show "check_labels (first # mids @ [lst]) = check_labels (first # mids' @ [lst])"
    by (simp add: check_labels_def)
next
  assume "eval_main w args = (tr, Done)"
  then obtain ws a cs scores labels spm lbl avg soft hard pre where
      i: "inference_loop w (models args) = (cs, Inr (scores, labels))" and
      cl: "check_labels labels = Inr lbl" and
      pre: "list_all (\<lambda>c. \<not> is_metric_call c) pre" and
      tr: "tr = pre @ fst (metrics_section (One_logger a) avg soft lbl (length (val_classes w)))"
    by (rule eval_main_Done)
  have u: "updates tr = updates (fst (metrics_section (One_logger a) avg soft lbl
              (length (val_classes w))))"
    unfolding tr updates_append no_metric_call_updates[OF pre] by simp
  from cl have l: "labels \<noteq> []" "hd labels = last labels" "lbl = hd labels"
    by (auto simp: check_labels_def split: list.splits if_splits)
  have "updates tr \<noteq> []" "list_all (\<lambda>u. snd (snd u) = hd labels) (updates tr)"
    unfolding u metrics_section_updates l(3) by simp_all
  with i l show "\<exists>cs scores labels.
           inference_loop w (models args) = (cs, Inr (scores, labels)) \<and>
           labels \<noteq> [] \<and> hd labels = last labels \<and>
           updates tr \<noteq> [] \<and>
           list_all (\<lambda>u. snd (snd u) = hd labels) (updates tr)"
    by blast
qed

theorem labels_first_against_last_only_witness:
  "snd (eval_main demo_eval_world demo_eval_args) = Done \<and>
   snd (inference_loop demo_eval_world (models demo_eval_args)) =
     Inr ([\<lparr> shape = [2, 2], data = [7/8, 1/8, 1/4, 3/4] \<rparr>,
           \<lparr> shape = [2, 2], data = [3/8, 5/8, 1/4, 3/4] \<rparr>,
           \<lparr> shape = [2, 2], data = [3/8, 5/8, 1/2, 1/2] \<rparr>],
          [\<lparr> shape = [2], data = [0, 1] \<rparr>,
           \<lparr> shape = [2], data = [1, 1] \<rparr>,
           \<lparr> shape = [2], data = [0, 1] \<rparr>]) \<and>
   list_all (\<lambda>u. snd (snd u) = \<lparr> shape = [2], data = [0, 1] \<rparr>)
     (updates (fst (eval_main demo_eval_world demo_eval_args)))"
proof -
  note d = demo_eval_done
  have i: "snd (inference_loop demo_eval_world (models demo_eval_args)) =
     Inr ([\<lparr> shape = [2, 2], data = [7/8, 1/8, 1/4, 3/4] \<rparr>,
           \<lparr> shape = [2, 2], data = [3/8, 5/8, 1/4, 3/4] \<rparr>,
           \<lparr> shape = [2, 2], data = [3/8, 5/8, 1/2, 1/2] \<rparr>],
          [\<lparr> shape = [2], data = [0, 1] \<rparr>,
           \<lparr> shape = [2], data = [1, 1] \<rparr>,
           \<lparr> shape = [2], data = [0, 1] \<rparr>])"
    by code_simp
  from labels_first_against_last_only[of "\<lparr> shape = [2], data = [0, 1] \<rparr>" "[]" "[]"
      "\<lparr> shape = [2], data = [0, 1] \<rparr>" "[]"
      demo_eval_world demo_eval_args "fst (eval_main demo_eval_world demo_eval_args)"]
    demo_eval_run
  obtain cs scores labels where
    "inference_loop demo_eval_world (models demo_eval_args) = (cs, Inr (scores, labels))"
    "list_all (\<lambda>u. snd (snd u) = hd labels)
       (updates (fst (eval_main demo_eval_world demo_eval_args)))"
    by blast
  with i d show ?thesis by simp
qed


section \<open>Runs of the training script and the logger set-up\<close>

lemma setup_aimlogger_none:
  assumes "s3_config_complete env" "\<not> truthy_str (repo args)" "\<not> env_set env ''AIM_REPO''"
  shows "setup_aimlogger env args = Inr ([''NO AIM LOGGERS CREATED''], No_logger)"
  using assms by (auto simp: setup_aimlogger_def s3_config_complete_def Let_def)

lemma setup_aimlogger_some:
  assumes "s3_config_complete env" "truthy_str (repo args) \<or> env_set env ''AIM_REPO''"
  shows "\<exists>lg. setup_aimlogger env args = Inr ([], lg) \<and> lg \<noteq> No_logger"
  using assms by (auto simp: setup_aimlogger_def s3_config_complete_def Let_def)

lemma setup_aimlogger_both:
  assumes "s3_config_complete env" "truthy_str (repo args)" "env_set env ''AIM_REPO''"
  shows "\<exists>a e. setup_aimlogger env args = Inr ([], Two_loggers a e)"
  using assms by (auto simp: setup_aimlogger_def s3_config_complete_def Let_def)

lemma fit_and_test_calls_append:
  "fit_and_test_calls (xs @ ys) = fit_and_test_calls xs @ fit_and_test_calls ys"
  by (induction xs rule: fit_and_test_calls.induct) auto

lemma fit_and_test_calls_logger: "fit_and_test_calls (logger_calls ws lg) = []"
proof -
  have "fit_and_test_calls (map Warn ws) = []" by (induction ws) auto
  then show ?thesis
    by (cases lg) (simp_all add: logger_calls_def fit_and_test_calls_append)
qed

lemma fit_and_test_calls_setup:
  "fit_and_test_calls (fst (setup_model_and_datamodule w args)) = []"
  by (auto simp: setup_model_and_datamodule_def Let_def split: sum.splits)

lemma setup_constructs_classifier:
  "setup_model_and_datamodule w args = (tr1, Inr (lm, dm)) \<Longrightarrow>
     New_classifier lm \<in> set tr1 \<and> New_datamodule dm \<in> set tr1"
  by (auto simp: setup_model_and_datamodule_def Let_def split: sum.splits if_splits)

lemma eval_main_no_logger:
  assumes "s3_config_complete (environ w)" "\<not> truthy_str (repo args)"
    "\<not> env_set (environ w) ''AIM_REPO''"
  shows "eval_main w args =
     ([Warn ''NO AIM LOGGERS CREATED''], Raised (AssertionError logger_is_none_msg))"
  using setup_aimlogger_none[OF assms] by (simp add: eval_main_def logger_calls_def)

lemma train_main_no_logger:
  assumes "s3_config_complete (environ w)" "\<not> truthy_str (repo args)"
    "\<not> env_set (environ w) ''AIM_REPO''"
  shows "setup_model_and_datamodule w args = (tr1, Inr (lm, dm)) \<Longrightarrow>
     train_main w args =
       (tr1 @ [Warn ''NO AIM LOGGERS CREATED''], Raised (AssertionError logger_is_none_msg))"
    and "snd (train_main w args) \<noteq> Done"
    and "fit_and_test_calls (fst (train_main w args)) = []"
proof -
  note s = setup_aimlogger_none[OF assms]
  show "setup_model_and_datamodule w args = (tr1, Inr (lm, dm)) \<Longrightarrow>
     train_main w args =
       (tr1 @ [Warn ''NO AIM LOGGERS CREATED''], Raised (AssertionError logger_is_none_msg))"
    by (simp add: train_main_def s logger_calls_def)
  obtain t r where sm: "setup_model_and_datamodule w args = (t, r)"
    by (cases "setup_model_and_datamodule w args")
  have ft: "fit_and_test_calls t = []"
    using fit_and_test_calls_setup[of w args] sm by simp
  show "snd (train_main w args) \<noteq> Done"
    by (cases r) (auto simp: train_main_def s sm)
  show "fit_and_test_calls (fst (train_main w args)) = []"
    by (cases r) (auto simp: train_main_def s sm ft logger_calls_def fit_and_test_calls_append)
qed

lemma train_main_setup_raises:
  "setup_model_and_datamodule w args = (tr1, Inl e) \<Longrightarrow> train_main w args = (tr1, Raised e)"
  by (simp add: train_main_def)

lemma train_main_Done:
  assumes "train_main w args = (tr, Done)"
  obtains tr1 lm dm ws logger tr2 where
    "setup_model_and_datamodule w args = (tr1, Inr (lm, dm))"
    "setup_aimlogger (environ w) args = Inr (ws, logger)"
    "train_and_test w args logger lm dm = (tr2, Done)"
    "tr = tr1 @ logger_calls ws logger @ tr2"
  using assms
  by (auto simp: train_main_def split: prod.splits sum.splits if_splits)

lemma fit_and_test_calls_train_and_test:
  assumes "train_and_test w args logger lm dm = (tr2, Done)"
  shows "fit_and_test_calls tr2 =
           Fit lm dm # (if truthy_str (testlist args) then [Test lm dm] else [])"
  using assms
  by (auto simp: train_and_test_def Let_def fit_and_test_calls_append split: option.splits)

lemma demo_train_run:
  "train_main demo_train_world demo_train_args =
     (fst (train_main demo_train_world demo_train_args), Done)"
proof -
  have "snd (train_main demo_train_world demo_train_args) = Done" by code_simp
  then show ?thesis by (metis prod.collapse)
qed

text \<open>
  C9 (as amended). When neither \<open>--repo\<close> has a non-empty value nor a non-empty
  \<open>AIM_REPO\<close> exists (and the S3 client can be configured), \<open>setup_aimlogger\<close> warns
  and returns \<open>None\<close>. The evaluation \<open>main\<close> then fails at its assertion before any
  model is loaded or evaluated. The training \<open>main\<close> assembles the model and the
  datamodule first: where \<open>setup_model_and_datamodule\<close> returns, \<open>main\<close> fails at the
  assertion, after the datamodule and the classifier module have been constructed;
  where it raises, \<open>main\<close> ends with that exception. Either way the training \<open>main\<close>
  ends with an exception and never calls fit or test. Conversely, with at least one of
  the two set a logger is returned, a list of two when both are set.
\<close>

theorem no_logger_fails_assertion:
  assumes "s3_config_complete (environ tw)" "s3_config_complete (environ ew)"
  shows
    "(\<not> truthy_str (repo eargs) \<and> \<not> env_set (environ ew) ''AIM_REPO'' \<longrightarrow>
        setup_aimlogger (environ ew) eargs = Inr ([''NO AIM LOGGERS CREATED''], No_logger) \<and>
        eval_main ew eargs =
          ([Warn ''NO AIM LOGGERS CREATED''], Raised (AssertionError logger_is_none_msg)))
   \<and> (\<not> truthy_str (repo targs) \<and> \<not> env_set (environ tw) ''AIM_REPO'' \<longrightarrow>
        setup_aimlogger (environ tw) targs = Inr ([''NO AIM LOGGERS CREATED''], No_logger) \<and>
        snd (train_main tw targs) \<noteq> Done \<and>
        fit_and_test_calls (fst (train_main tw targs)) = [] \<and>
        (\<forall>tr1 lm dm. setup_model_and_datamodule tw targs = (tr1, Inr (lm, dm)) \<longrightarrow>
           New_classifier lm \<in> set tr1 \<and> New_datamodule dm \<in> set tr1 \<and>
           train_main tw targs =
             (tr1 @ [Warn ''NO AIM LOGGERS CREATED''],
              Raised (AssertionError logger_is_none_msg))) \<and>
        (\<forall>tr1 e. setup_model_and_datamodule tw targs = (tr1, Inl e) \<longrightarrow>
           train_main tw targs = (tr1, Raised e)))
   \<and> (truthy_str (repo eargs) \<or> env_set (environ ew) ''AIM_REPO'' \<longrightarrow>
        (\<exists>lg. setup_aimlogger (environ ew) eargs = Inr ([], lg) \<and> lg \<noteq> No_logger))
   \<and> (truthy_str (repo eargs) \<and> env_set (environ ew) ''AIM_REPO'' \<longrightarrow>
        (\<exists>a e. setup_aimlogger (environ ew) eargs = Inr ([], Two_loggers a e)))"
  using setup_aimlogger_none[OF assms(2), of eargs] eval_main_no_logger[OF assms(2), of eargs]
    setup_aimlogger_none[OF assms(1), of targs] train_main_no_logger[OF assms(1), of targs]
    setup_constructs_classifier[of tw targs] train_main_setup_raises[of tw targs]
    setup_aimlogger_some[OF assms(2), of eargs] setup_aimlogger_both[OF assms(2), of eargs]
  by blast


theorem no_logger_fails_assertion_witness:
  "snd (train_main demo_train_world no_repo_train_args) \<noteq> Done \<and>
   fit_and_test_calls (fst (train_main demo_train_world no_repo_train_args)) = [] \<and>
   eval_main (demo_eval_world \<lparr> environ := Map.empty \<rparr>) demo_eval_args =
     ([Warn ''NO AIM LOGGERS CREATED''], Raised (AssertionError logger_is_none_msg)) \<and>
   (\<exists>lg. setup_aimlogger (environ demo_eval_world) demo_eval_args = Inr ([], lg) \<and>
         lg \<noteq> No_logger)"
proof -
  have t: "s3_config_complete (environ demo_train_world)"
    by (simp add: s3_config_complete_def demo_train_world_def env_set_def truthy_str_def)
  have e: "s3_config_complete (environ demo_eval_world)"
    by (simp add: s3_config_complete_def demo_eval_world_def env_set_def truthy_str_def)
  have e0: "s3_config_complete (environ (demo_eval_world \<lparr> environ := Map.empty \<rparr>))"
    by (simp add: s3_config_complete_def env_set_def truthy_str_def)
  have r: "\<not> truthy_str (repo no_repo_train_args)"
       "\<not> env_set (environ demo_train_world) ''AIM_REPO''"
       "env_set (environ demo_eval_world) ''AIM_REPO''"
       "\<not> truthy_str (repo demo_eval_args)"
       "\<not> env_set (environ (demo_eval_world \<lparr> environ := Map.empty \<rparr>)) ''AIM_REPO''"
    by (simp_all add: no_repo_train_args_def demo_train_args_def demo_train_world_def
          demo_eval_world_def demo_eval_args_def env_set_def truthy_str_def)
  show ?thesis
    using no_logger_fails_assertion[OF t e, of demo_eval_args no_repo_train_args]
      no_logger_fails_assertion[OF t e0, of demo_eval_args no_repo_train_args] r
    by blast
qed

text \<open>
  C9 as stated, the assertion failing before any model is constructed, fails for the
  training script: \<open>main\<close> of train.py calls \<open>setup_model_and_datamodule\<close> before
  \<open>setup_aimlogger\<close>, so the classifier module exists when the assertion fails.
\<close>

theorem no_logger_after_model_construction:
  "\<not> truthy_str (repo no_repo_train_args) \<and>
   \<not> env_set (environ demo_train_world) ''AIM_REPO'' \<and>
   train_main demo_train_world no_repo_train_args =
     ([New_datamodule demo_datamodule, New_classifier demo_module,
       Warn ''NO AIM LOGGERS CREATED''],
      Raised (AssertionError logger_is_none_msg))"
  by code_simp

text \<open>
  C5. In every invocation of the training \<open>main\<close> that ends normally, the trainer's
  \<open>fit\<close> is called exactly once, on the model and the datamodule that
  \<open>setup_model_and_datamodule\<close> assembled, and \<open>test\<close> is called (once, after \<open>fit\<close>,
  on the same two objects) if and only if \<open>--testlist\<close> was provided, that is,
  \<open>args.testlist\<close> is neither \<open>None\<close> nor empty.
\<close>

theorem fit_once_test_iff_testlist:
  assumes "train_main w args = (tr, Done)"
  shows "\<exists>tr1 lm dm. setup_model_and_datamodule w args = (tr1, Inr (lm, dm)) \<and>
           fit_and_test_calls tr =
             Fit lm dm # (if truthy_str (testlist args) then [Test lm dm] else [])"
proof -
  from assms obtain tr1 lm dm ws logger tr2 where
      s: "setup_model_and_datamodule w args = (tr1, Inr (lm, dm))" and
      t: "train_and_test w args logger lm dm = (tr2, Done)" and
      tr: "tr = tr1 @ logger_calls ws logger @ tr2"
    by (rule train_main_Done)
  have "fit_and_test_calls tr1 = []"
    using fit_and_test_calls_setup[of w args] s by simp
  then have "fit_and_test_calls tr =
      Fit lm dm # (if truthy_str (testlist args) then [Test lm dm] else [])"
    unfolding tr fit_and_test_calls_append fit_and_test_calls_logger
      fit_and_test_calls_train_and_test[OF t] by simp
  with s show ?thesis by blast
qed

theorem fit_once_test_iff_testlist_witness:
  "snd (train_main demo_train_world demo_train_args) = Done \<and>
   fit_and_test_calls (fst (train_main demo_train_world demo_train_args)) =
     [Fit demo_module demo_datamodule, Test demo_module demo_datamodule]"
proof -
  have d: "snd (train_main demo_train_world demo_train_args) = Done" by code_simp
  have s: "setup_model_and_datamodule demo_train_world demo_train_args =
     ([New_datamodule demo_datamodule, New_classifier demo_module],
      Inr (demo_module, demo_datamodule))"
    by code_simp
  have t: "truthy_str (testlist demo_train_args)"
    by (simp add: demo_train_args_def truthy_str_def)
  show ?thesis
    using fit_once_test_iff_testlist[OF demo_train_run] d s t by simp
qed

text \<open>What the loss set-up does where it returns, and where it raises.\<close>

lemma build_loss_kwargs_cross_entropy:
  "py_bool wt = Inr b \<Longrightarrow>
     build_loss_kwargs CrossEntropyLoss smoothing gamma wt =
       Inr ((''label_smoothing'', PyNum smoothing) # (if b then [(''weights'', the wt)] else []))"
  by (simp add: build_loss_kwargs_def)

lemma build_loss_kwargs_focal:
  "py_any wt = Inr b \<Longrightarrow>
     build_loss_kwargs FocalLoss smoothing gamma wt =
       Inr ((''gamma'', PyNum gamma) # (if b then [(''alpha'', the wt)] else []))"
  by (simp add: build_loss_kwargs_def)

text \<open>
  C6. The loss keyword arguments follow the flags only where the weights test returns:
  with \<open>--loss-function FocalLoss\<close> and no loss-weights tensor (the default),
  \<open>any(args.loss_weights_tensor)\<close> raises \<open>TypeError\<close>, no keyword arguments are built
  and no classifier module is constructed, while the \<open>CrossEntropyLoss\<close> branch
  handles the missing tensor.
\<close>

theorem focal_loss_without_weights_raises:
  "build_loss_kwargs FocalLoss smoothing gamma None =
     Inl (TypeError ''NoneType object is not iterable'') \<and>
   build_loss_kwargs CrossEntropyLoss smoothing gamma None =
     Inr [(''label_smoothing'', PyNum smoothing)] \<and>
   setup_model_and_datamodule demo_train_world focal_train_args =
     ([New_datamodule demo_datamodule], Inl (TypeError ''NoneType object is not iterable'')) \<and>
   train_main demo_train_world focal_train_args =
     ([New_datamodule demo_datamodule], Raised (TypeError ''NoneType object is not iterable''))"
proof -
  have "setup_model_and_datamodule demo_train_world focal_train_args =
     ([New_datamodule demo_datamodule], Inl (TypeError ''NoneType object is not iterable''))"
    by code_simp
  moreover have "train_main demo_train_world focal_train_args =
     ([New_datamodule demo_datamodule], Raised (TypeError ''NoneType object is not iterable''))"
    by code_simp
  ultimately show ?thesis by (simp add: build_loss_kwargs_def)
qed

section \<open>Loading a checkpoint\<close>

lemma map_of_setitem:
  "map_of (setitem k v d) k' = (if k' = k then Some v else map_of d k')"
proof (cases "has_key k d")
  case True
  have "map_of (map (\<lambda>kv. if fst kv = k then (k, v) else kv) d) k' =
        (if k' = k then (case map_of d k of None \<Rightarrow> None | Some _ \<Rightarrow> Some v) else map_of d k')"
    by (induction d) (auto split: option.splits)
  with True show ?thesis by (auto simp: setitem_def has_key_def)
next
  case False
  then show ?thesis by (auto simp: setitem_def has_key_def map_add_def split: option.splits)
qed

lemma map_of_filter_neq:
  "map_of (filter (\<lambda>kv. fst kv \<noteq> k0) d) k = (if k = k0 then None else map_of d k)"
  by (induction d) auto

lemma map_of_filter_in:
  "map_of (filter (\<lambda>kv. fst kv \<in> S) d) k = (if k \<in> S then map_of d k else None)"
  by (induction d) auto

lemma keys_filter_expected:
  "fst ` set (filter (\<lambda>kv. fst kv \<in> S) d) \<subseteq> S"
  by auto

lemma fallback_keeps_new_style:
  "has_key ''model_name'' hp \<Longrightarrow> fallback_hyper_parameters hp = Inr hp"
  by (simp add: fallback_hyper_parameters_def)

lemma fallback_renames_old_style:
  assumes "\<not> has_key ''model_name'' hp" "map_of hp ''model'' = Some mv"
    "map_of hp ''weights'' = Some wv"
  shows "\<exists>hp'. fallback_hyper_parameters hp = Inr hp' \<and>
           fst ` set hp' \<subseteq> set expected_hparams \<and>
           map_of hp' ''model_name'' = Some mv \<and>
           map_of hp' ''model_weights'' = Some wv \<and>
           (\<forall>k \<in> set expected_hparams - {''model_name'', ''model_weights''}.
              map_of hp' k = map_of hp k)"
proof -
  let ?hp1 = "filter (\<lambda>kv. fst kv \<noteq> ''model'') hp"
  let ?hp1' = "setitem ''model_name'' mv ?hp1"
  let ?hp2 = "filter (\<lambda>kv. fst kv \<noteq> ''weights'') ?hp1'"
  let ?hp3 = "setitem ''model_weights'' wv ?hp2"
  let ?hp' = "filter (\<lambda>kv. fst kv \<in> set expected_hparams) ?hp3"
  have p1: "pop ''model'' hp = Inr (mv, ?hp1)"
    using assms(2) by (simp add: pop_def)
  have w1: "map_of ?hp1' ''weights'' = Some wv"
    using assms(3) by (simp add: map_of_setitem map_of_filter_neq map_of_filter_in)
  then have p2: "pop ''weights'' ?hp1' = Inr (wv, ?hp2)"
    by (simp add: pop_def)
  have f: "fallback_hyper_parameters hp = Inr ?hp'"
    using assms(1) by (simp add: fallback_hyper_parameters_def p1 p2)
  have m: "\<And>k. map_of ?hp' k =
      (if k \<in> set expected_hparams
       then (if k = ''model_weights'' then Some wv
             else if k = ''weights'' then None
             else if k = ''model_name'' then Some mv
             else if k = ''model'' then None else map_of hp k)
       else None)"
    by (simp add: map_of_setitem map_of_filter_neq map_of_filter_in)
  have "fst ` set ?hp' \<subseteq> set expected_hparams" by auto
  moreover have "map_of ?hp' ''model_name'' = Some mv" "map_of ?hp' ''model_weights'' = Some wv"
    unfolding m by (simp_all add: expected_hparams_def)
  moreover have "\<forall>k \<in> set expected_hparams - {''model_name'', ''model_weights''}.
              map_of ?hp' k = map_of hp k"
    unfolding m by (auto simp: expected_hparams_def)
  ultimately show ?thesis using f by blast
qed

lemma load_model_via_fallback:
  assumes "load_from_checkpoint w (checkpoint_path w d) = Inl e"
    "torch_load w (checkpoint_path w d) = Inr ck"
    "fallback_hyper_parameters (hyper_parameters ck) = Inr hp"
    "classifier_init w hp = Inr net"
    "load_state_dict w net (state_dict ck) = Inr net'"
    "map_of hp ''model_name'' = Some name"
    "get_model_resize w name = Inr r"
  shows "load_model w d = Inr (net', [Resize r r, ToImage, ToDtype ''float32'' True])"
  using assms by (simp add: load_model_def load_fallback_def base_transforms_for_def)

text \<open>
  C7 (as amended). When \<open>load_from_checkpoint\<close> raises, \<open>load_model\<close> loads the raw
  checkpoint. If its hyperparameters have no \<open>model_name\<close>, \<open>model\<close> is renamed to
  \<open>model_name\<close>, \<open>weights\<close> to \<open>model_weights\<close> and every key outside the expected set
  is dropped; if they have \<open>model_name\<close> they are used unchanged, without pruning. The
  classifier is constructed from these hyperparameters, its state dict is loaded, and
  the inner model is returned with the resize, to-image and to-dtype transforms for its
  model name.
\<close>

theorem load_model_fallback:
  "(has_key ''model_name'' hp0 \<longrightarrow> fallback_hyper_parameters hp0 = Inr hp0)
   \<and> (\<not> has_key ''model_name'' hp0 \<and> map_of hp0 ''model'' = Some mv \<and>
        map_of hp0 ''weights'' = Some wv \<longrightarrow>
        (\<exists>hp'. fallback_hyper_parameters hp0 = Inr hp' \<and>
           fst ` set hp' \<subseteq> set expected_hparams \<and>
           map_of hp' ''model_name'' = Some mv \<and>
           map_of hp' ''model_weights'' = Some wv \<and>
           (\<forall>k \<in> set expected_hparams - {''model_name'', ''model_weights''}.
              map_of hp' k = map_of hp0 k)))
   \<and> (load_from_checkpoint w (checkpoint_path w d) = Inl e \<and>
        torch_load w (checkpoint_path w d) = Inr ck \<and>
        fallback_hyper_parameters (hyper_parameters ck) = Inr hp \<and>
        classifier_init w hp = Inr net \<and>
        load_state_dict w net (state_dict ck) = Inr net' \<and>
        map_of hp ''model_name'' = Some name \<and>
        get_model_resize w name = Inr r \<longrightarrow>
        load_model w d = Inr (net', [Resize r r, ToImage, ToDtype ''float32'' True]))"
  using fallback_keeps_new_style[of hp0] fallback_renames_old_style[of hp0 mv wv]
    load_model_via_fallback[of w d e ck hp net net' name r]
  by blast

theorem load_model_fallback_witness:
  "load_model demo_eval_world ''a.ckpt'' =
     Inr ([(''num_classes'', ''2''), (''model_name'', ''a.ckpt''),
           (''model_weights'', ''DEFAULT'')],
          [Resize 224 224, ToImage, ToDtype ''float32'' True])"
proof -
  define hp0 :: "(string \<times> string) list" where
    "hp0 = [(''model'', ''a.ckpt''), (''weights'', ''DEFAULT''), (''lr'', ''0.001''),
            (''num_classes'', ''2'')]"
  define hp :: "(string \<times> string) list" where
    "hp = [(''num_classes'', ''2''), (''model_name'', ''a.ckpt''),
           (''model_weights'', ''DEFAULT'')]"
  define ck :: "(string, unit) checkpoint" where
    "ck = \<lparr> hyper_parameters = hp0, state_dict = () \<rparr>"
  have p: "checkpoint_path demo_eval_world ''a.ckpt'' = Some ''a.ckpt''"
    by (simp add: checkpoint_path_def demo_eval_world_def endswith_def)
  have 1: "load_from_checkpoint demo_eval_world (checkpoint_path demo_eval_world ''a.ckpt'') =
      Inl FrameworkError"
    by (simp add: demo_eval_world_def)
  have 2: "torch_load demo_eval_world (checkpoint_path demo_eval_world ''a.ckpt'') = Inr ck"
    unfolding p by (simp add: demo_eval_world_def ck_def hp0_def)
  have "fallback_hyper_parameters
          [(''model'', ''a.ckpt''), (''weights'', ''DEFAULT''), (''lr'', ''0.001''),
           (''num_classes'', ''2'')] =
        Inr [(''num_classes'', ''2''), (''model_name'', ''a.ckpt''),
             (''model_weights'', ''DEFAULT'')]"
    by code_simp
  then have 3: "fallback_hyper_parameters (hyper_parameters ck) = Inr hp"
    by (simp add: ck_def hp0_def hp_def)
  have 4: "classifier_init demo_eval_world hp = Inr hp" by (simp add: demo_eval_world_def)
  have 5: "load_state_dict demo_eval_world hp (state_dict ck) = Inr hp"
    by (simp add: demo_eval_world_def)
  have 6: "map_of hp ''model_name'' = Some ''a.ckpt''" by (simp add: hp_def)
  have 7: "get_model_resize demo_eval_world ''a.ckpt'' = Inr 224"
    by (simp add: demo_eval_world_def)
  have "load_model demo_eval_world ''a.ckpt'' =
      Inr (hp, [Resize 224 224, ToImage, ToDtype ''float32'' True])"
    using load_model_fallback[of hp0 "''a.ckpt''" "''DEFAULT''" demo_eval_world "''a.ckpt''"
        FrameworkError ck hp hp hp "''a.ckpt''" 224] 1 2 3 4 5 6 7
    by blast
  then show ?thesis by (simp add: hp_def)
qed

text \<open>
  C7 as stated, the hyperparameters pruned to the expected key set for every checkpoint,
  fails for a checkpoint that already has \<open>model_name\<close>: the pruning loop is inside the
  \<open>if 'model_name' not in ...\<close> branch, and the key \<open>lr\<close> reaches the constructor.
\<close>

theorem new_style_checkpoint_not_pruned:
  "load_from_checkpoint new_style_world (checkpoint_path new_style_world ''x.ckpt'') =
     Inl FrameworkError \<and>
   torch_load new_style_world (checkpoint_path new_style_world ''x.ckpt'') =
     Inr \<lparr> hyper_parameters = new_style_hparams, state_dict = () \<rparr> \<and>
   fallback_hyper_parameters new_style_hparams = Inr new_style_hparams \<and>
   ''lr'' \<in> fst ` set new_style_hparams \<and>
   ''lr'' \<notin> set expected_hparams \<and>
   load_model new_style_world ''x.ckpt'' =
     Inr (new_style_hparams, [Resize 224 224, ToImage, ToDtype ''float32'' True])"
  by code_simp

end
